theory Spec2Isabelle
  imports Main
begin

section \<open>Values shared by the two client ports\<close>

text \<open>
  The repository holds two ports of the same client: the PHP library
  (\<^verbatim>\<open>IaJson\Client\<close>: \<^verbatim>\<open>Discovery\<close>, \<^verbatim>\<open>IaJsonClient\<close>, \<^verbatim>\<open>Auth\Signer\<close>,
  \<^verbatim>\<open>Auth\Register\<close>, \<^verbatim>\<open>Auth\OAuth\<close>) and the Node library (\<^verbatim>\<open>discovery.ts\<close>,
  \<^verbatim>\<open>client.ts\<close>, \<^verbatim>\<open>auth/signer.ts\<close>). Both work on decoded JSON. A decoded JSON value
  is modelled by \<open>json\<close>; an object keeps its members in document order, and a member
  that occurs twice is read as both decoders read it: the last occurrence wins.
\<close>

datatype json =
    JNull
  | JBool bool
  | JInt int
  | JStr string
  | JArr "json list"
  | JObj "(string \<times> json) list"

definition obj_get :: "(string \<times> json) list \<Rightarrow> string \<Rightarrow> json option" where
  "obj_get kvs k = map_of (rev kvs) k"

text \<open>
  The network is a function from the request sent to what comes back: a transport
  failure, or a response with its status, headers and body.
\<close>

datatype payload =
    NoBody
  | RawBody string
  | JsonBody json
  | FormBody "(string \<times> string) list"

record http_request =
  req_method :: string
  req_url :: string
  req_headers :: "(string \<times> string) list"
  req_query :: "(string \<times> json) list"
  req_body :: payload

datatype http_outcome =
    TransportError string
  | Response nat "(string \<times> string) list" string

text \<open>
  What a call does besides returning: the HMAC computations it runs and the HTTP
  requests it sends, in order.
\<close>

datatype effect =
    Hmac string string string
  | Http http_request

definition network_requests :: "effect list \<Rightarrow> http_request list" where
  "network_requests t = concat (map (\<lambda>e. case e of Http r \<Rightarrow> [r] | _ \<Rightarrow> []) t)"



section \<open>The PHP port\<close>

subsection \<open>Errors and the environment\<close>

text \<open>
  Every exception the PHP code can raise is a value. \<open>IaJsonException\<close> and
  \<open>AuthenticationException\<close> carry the \<^verbatim>\<open>errorCode\<close> string of the source
  (\<^verbatim>\<open>?string\<close>); the remaining constructors are the PHP runtime's own errors.
\<close>

datatype php_error =
    IaJsonException "string option"
  | AuthenticationException "string option"
  | RateLimitException "int option"
  | TypeError
  | ValueError
  | JsonException
  | RandomException

text \<open>
  The collaborators of the PHP port that are not code of this repository are the fields
  of \<open>php_env\<close>: the clock (\<^verbatim>\<open>time()\<close>, read as one instant for the whole operation),
  the hash extension (\<^verbatim>\<open>hash_hmac_algos()\<close>, \<^verbatim>\<open>hash_hmac\<close>, \<^verbatim>\<open>hash('sha256', _, true)\<close>),
  the Guzzle client with its default for \<^verbatim>\<open>http_errors\<close>, the JSON codec, and the
  conversions \<^verbatim>\<open>(string)\<close>, \<^verbatim>\<open>(int)\<close>, \<^verbatim>\<open>rawurlencode\<close>, \<^verbatim>\<open>http_build_query\<close> and
  \<^verbatim>\<open>parse_url\<close>.
  PHP integers are 64-bit and do not wrap (an overflowing difference becomes a float);
  timestamps are modelled in \<open>int\<close>, which is exact as long as the values and their
  differences stay within 64 bits.
\<close>

record url_parts =
  url_scheme :: "string option"
  url_host :: "string option"
  url_port :: "nat option"
  url_path :: "string option"

record php_env =
  time :: int
  hmac_algos :: "string list"
  hmac_digest :: "string \<Rightarrow> string \<Rightarrow> string \<Rightarrow> string"
  sha256_raw :: "string \<Rightarrow> string"
  http_send :: "http_request \<Rightarrow> http_outcome"
  client_http_errors :: bool
  json_decode :: "string \<Rightarrow> json option"
  json_encode :: "json \<Rightarrow> string option"
  strval :: "json \<Rightarrow> string"
  intval :: "json \<Rightarrow> int"
  rawurlencode :: "string \<Rightarrow> string"
  http_build_query :: "(string \<times> string) list \<Rightarrow> string"
  parse_url :: "string \<Rightarrow> url_parts option"

subsection \<open>Integers as decimal strings\<close>

definition digit_char :: "nat \<Rightarrow> char" where
  "digit_char d = ''0123456789'' ! d"

function string_of_nat :: "nat \<Rightarrow> string" where
  "string_of_nat n =
     (if n < 10 then [digit_char n] else string_of_nat (n div 10) @ [digit_char (n mod 10)])"
  by pat_completeness auto
termination
  by (relation "measure id") auto

declare string_of_nat.simps [simp del]

definition string_of_int :: "int \<Rightarrow> string" where
  "string_of_int i = (if i < 0 then CHR ''-'' # string_of_nat (nat (- i)) else string_of_nat (nat i))"

subsection \<open>Signer\<close>

text \<open>
  \<^verbatim>\<open>hash_hmac($algo, $data, $key)\<close> raises \<^verbatim>\<open>ValueError\<close> for an algorithm the hash
  extension does not know, and otherwise returns the hex digest.
\<close>

definition hash_hmac :: "php_env \<Rightarrow> string \<Rightarrow> string \<Rightarrow> string \<Rightarrow> effect list \<times> (php_error + string)" where
  "hash_hmac E algo data key =
     (if algo \<in> set (hmac_algos E)
      then ([Hmac algo data key], Inr (hmac_digest E algo data key))
      else ([], Inl ValueError))"

text \<open>\<^verbatim>\<open>hash_equals\<close> compares two strings in constant time; its value is their equality.\<close>

definition hash_equals :: "string \<Rightarrow> string \<Rightarrow> bool" where
  "hash_equals known user = (known = user)"

definition buildSigningString :: "int \<Rightarrow> string \<Rightarrow> string" where
  "buildSigningString timestamp body = string_of_int timestamp @ ''.'' @ body"

definition sign :: "php_env \<Rightarrow> string \<Rightarrow> int \<Rightarrow> string \<Rightarrow> string \<Rightarrow> effect list \<times> (php_error + string)" where
  "sign E secret timestamp body algorithm =
     (let signingString = buildSigningString timestamp body
      in hash_hmac E algorithm signingString secret)"

definition verify :: "php_env \<Rightarrow> string \<Rightarrow> string \<Rightarrow> int \<Rightarrow> string \<Rightarrow> string \<Rightarrow> int \<Rightarrow> effect list \<times> (php_error + bool)" where
  "verify E secret providedSignature timestamp body algorithm maxAgeSeconds =
     (let now = time E in
      if \<bar>now - timestamp\<bar> > maxAgeSeconds then ([], Inr False)
      else (case sign E secret timestamp body algorithm of
              (t, Inl e) \<Rightarrow> (t, Inl e)
            | (t, Inr expectedSignature) \<Rightarrow> (t, Inr (hash_equals expectedSignature providedSignature))))"

text \<open>The default arguments of \<^verbatim>\<open>Signer::verify\<close>.\<close>

definition default_algorithm :: string where
  "default_algorithm = ''sha256''"


text \<open>
  \<^verbatim>\<open>Signer::createSignedHeaders\<close>: the three headers, in the order of the source, signed
  at the current time.
\<close>

definition createSignedHeaders :: "php_env \<Rightarrow> string \<Rightarrow> string \<Rightarrow> string \<Rightarrow> string \<Rightarrow> string \<Rightarrow> effect list \<times> (php_error + (string \<times> string) list)" where
  "createSignedHeaders E apiKey secret body algorithm prefix =
     (let timestamp = time E in
      case sign E secret timestamp body algorithm of
        (t, Inl e) \<Rightarrow> (t, Inl e)
      | (t, Inr signature) \<Rightarrow>
          (t, Inr [(prefix @ ''Key'', apiKey),
                   (prefix @ ''Signature'', signature),
                   (prefix @ ''Timestamp'', string_of_int timestamp)]))"

subsection \<open>PHP values and string functions\<close>

text \<open>
  Reading \<^verbatim>\<open>$x['key']\<close> under \<^verbatim>\<open>isset\<close>, \<^verbatim>\<open>empty\<close> or \<^verbatim>\<open>??\<close>: the value of the
  member when \<open>x\<close> is an object that has it, and null otherwise. The keys are taken
  to be non-numeric strings, as the fixed keys of the source are, so that a list, a string
  and a scalar have none of them; an operation name that is a decimal number, looked up in
  a list or in a string, is outside the model. JSON numbers with a fraction or an exponent
  are not represented.
\<close>

definition php_index :: "json \<Rightarrow> string \<Rightarrow> json" where
  "php_index x k =
     (case x of
        JObj kvs \<Rightarrow> (case obj_get kvs k of Some v \<Rightarrow> v | None \<Rightarrow> JNull)
      | _ \<Rightarrow> JNull)"

definition php_isset :: "json \<Rightarrow> bool" where
  "php_isset v = (v \<noteq> JNull)"

fun php_empty :: "json \<Rightarrow> bool" where
  "php_empty JNull = True"
| "php_empty (JBool b) = (\<not> b)"
| "php_empty (JInt i) = (i = 0)"
| "php_empty (JStr s) = (s = [] \<or> s = ''0'')"
| "php_empty (JArr xs) = (xs = [])"
| "php_empty (JObj kvs) = (kvs = [])"

fun is_array :: "json \<Rightarrow> bool" where
  "is_array (JArr xs) = True"
| "is_array (JObj kvs) = True"
| "is_array _ = False"

text \<open>
  \<^verbatim>\<open>strtr($s, $from, $to)\<close> replaces bytes one for one (a byte listed twice in
  \<open>from\<close> takes its last replacement); \<^verbatim>\<open>rtrim($s, $chars)\<close> and
  \<^verbatim>\<open>ltrim($s, $chars)\<close> strip the listed bytes from one end; \<^verbatim>\<open>implode\<close> joins with
  a separator; \<^verbatim>\<open>bin2hex\<close> writes each byte as two lower-case hex digits.
\<close>

definition strtr :: "string \<Rightarrow> string \<Rightarrow> string \<Rightarrow> string" where
  "strtr s from to = map (\<lambda>c. case map_of (rev (zip from to)) c of Some d \<Rightarrow> d | None \<Rightarrow> c) s"

definition rtrim :: "string \<Rightarrow> string \<Rightarrow> string" where
  "rtrim s chars = rev (dropWhile (\<lambda>c. c \<in> set chars) (rev s))"

definition ltrim :: "string \<Rightarrow> string \<Rightarrow> string" where
  "ltrim s chars = dropWhile (\<lambda>c. c \<in> set chars) s"

fun implode :: "string \<Rightarrow> string list \<Rightarrow> string" where
  "implode sep [] = []"
| "implode sep [x] = x"
| "implode sep (x # y # ys) = x @ sep @ implode sep (y # ys)"

definition hex_digit :: "nat \<Rightarrow> char" where
  "hex_digit d = ''0123456789abcdef'' ! d"

definition bin2hex :: "string \<Rightarrow> string" where
  "bin2hex s = concat (map (\<lambda>c. [hex_digit (of_char c div 16), hex_digit (of_char c mod 16)]) s)"

text \<open>
  \<^verbatim>\<open>base64_encode\<close> (RFC 4648, section 4): three bytes become four characters of the
  standard alphabet, and a last group of one or two bytes is padded with \<open>=\<close>.
\<close>

definition base64_chars :: string where
  "base64_chars = ''ABCDEFGHIJKLMNOPQRSTUVWXYZabcdefghijklmnopqrstuvwxyz0123456789+/''"

definition b64 :: "nat \<Rightarrow> char" where
  "b64 n = base64_chars ! n"

fun base64_encode :: "string \<Rightarrow> string" where
  "base64_encode (a # b # c # rest) =
     [b64 (of_char a div 4),
      b64 ((of_char a mod 4) * 16 + of_char b div 16),
      b64 ((of_char b mod 16) * 4 + of_char c div 64),
      b64 (of_char c mod 64)] @ base64_encode rest"
| "base64_encode [a, b] =
     [b64 (of_char a div 4),
      b64 ((of_char a mod 4) * 16 + of_char b div 16),
      b64 ((of_char b mod 16) * 4),
      CHR ''='']"
| "base64_encode [a] =
     [b64 (of_char a div 4),
      b64 ((of_char a mod 4) * 16),
      CHR ''='', CHR ''='']"
| "base64_encode [] = []"

text \<open>
  \<^verbatim>\<open>random_bytes($n)\<close> draws from the system's secure random source. The source is an
  explicit supply of bytes, consumed from the front; a source that cannot deliver raises.
\<close>

definition random_bytes :: "string \<Rightarrow> nat \<Rightarrow> php_error + (string \<times> string)" where
  "random_bytes pool n =
     (if length pool < n then Inl RandomException else Inr (take n pool, drop n pool))"

subsection \<open>The Guzzle client\<close>

text \<open>
  \<^verbatim>\<open>$httpClient->request(...)\<close> sends one request. It raises a \<^verbatim>\<open>GuzzleException\<close> on a
  transport failure and, when \<^verbatim>\<open>http_errors\<close> is on, on a status of 400 or more.
\<close>

datatype guzzle_result =
    GuzzleException
  | GuzzleResponse nat "(string \<times> string) list" string

definition guzzle_request :: "php_env \<Rightarrow> bool \<Rightarrow> http_request \<Rightarrow> effect list \<times> guzzle_result" where
  "guzzle_request E http_errors r =
     ([Http r],
      (case http_send E r of
         TransportError m \<Rightarrow> GuzzleException
       | Response status hs b \<Rightarrow>
           if http_errors \<and> status \<ge> 400 then GuzzleException else GuzzleResponse status hs b))"

text \<open>\<^verbatim>\<open>json_decode($s, true)\<close> without \<^verbatim>\<open>JSON_THROW_ON_ERROR\<close>: null on a syntax error.\<close>

definition json_decode_or_null :: "php_env \<Rightarrow> string \<Rightarrow> json" where
  "json_decode_or_null E s = (case json_decode E s of None \<Rightarrow> JNull | Some j \<Rightarrow> j)"

subsection \<open>OAuth\<close>

record oauth =
  authorizationUrl :: string
  tokenUrl :: string
  clientId :: string
  clientSecret :: string
  pkceRequired :: bool
  accessToken :: "string option"
  refreshToken :: "string option"
  expiresAt :: "int option"

definition missingOAuthToken :: php_error where
  "missingOAuthToken = AuthenticationException (Some ''missing_oauth_token'')"

definition missingCredentials :: php_error where
  "missingCredentials = AuthenticationException (Some ''missing_credentials'')"

text \<open>
  \<^verbatim>\<open>OAuth::requestToken\<close>. The three token fields are typed properties
  (\<^verbatim>\<open>?string\<close>, \<^verbatim>\<open>?string\<close>, \<^verbatim>\<open>?int\<close>) under \<^verbatim>\<open>strict_types\<close>: assigning a value of
  another type raises \<^verbatim>\<open>TypeError\<close>, after the assignments before it have taken place.
\<close>

definition requestToken :: "php_env \<Rightarrow> oauth \<Rightarrow> (string \<times> string) list \<Rightarrow> effect list \<times> (php_error + json) \<times> oauth" where
  "requestToken E oa params =
     (case guzzle_request E (client_http_errors E)
             \<lparr>req_method = ''POST'', req_url = tokenUrl oa,
              req_headers = [(''Accept'', ''application/json'')],
              req_query = [], req_body = FormBody params\<rparr> of
        (t, GuzzleException) \<Rightarrow> (t, Inl (IaJsonException (Some ''oauth_token_failed'')), oa)
      | (t, GuzzleResponse status hs raw) \<Rightarrow>
          (let body = json_decode_or_null E raw in
           if \<not> is_array body \<or> php_empty (php_index body ''access_token'')
           then (t, Inl (IaJsonException (Some ''invalid_token_response'')), oa)
           else (case php_index body ''access_token'' of
                   JStr tok \<Rightarrow>
                     (let oa1 = oa\<lparr>accessToken := Some tok\<rparr> in
                      case php_index body ''refresh_token'' of
                        JNull \<Rightarrow>
                          (t, Inr body,
                           oa1\<lparr>expiresAt := (if php_isset (php_index body ''expires_in'')
                                             then Some (time E + intval E (php_index body ''expires_in''))
                                             else None)\<rparr>)
                      | JStr rt \<Rightarrow>
                          (t, Inr body,
                           oa1\<lparr>refreshToken := Some rt,
                              expiresAt := (if php_isset (php_index body ''expires_in'')
                                            then Some (time E + intval E (php_index body ''expires_in''))
                                            else None)\<rparr>)
                      | _ \<Rightarrow> (t, Inl TypeError, oa1))
                 | _ \<Rightarrow> (t, Inl TypeError, oa))))"

definition refreshAccessToken :: "php_env \<Rightarrow> oauth \<Rightarrow> string option \<Rightarrow> effect list \<times> (php_error + json) \<times> oauth" where
  "refreshAccessToken E oa refreshTokenArg =
     (case (case refreshTokenArg of Some r \<Rightarrow> Some r | None \<Rightarrow> refreshToken oa) of
        None \<Rightarrow> ([], Inl missingOAuthToken, oa)
      | Some token \<Rightarrow>
          requestToken E oa
            ([(''grant_type'', ''refresh_token''),
              (''refresh_token'', token),
              (''client_id'', clientId oa)]
             @ (if clientSecret oa \<noteq> [] then [(''client_secret'', clientSecret oa)] else [])))"

definition isExpired :: "php_env \<Rightarrow> oauth \<Rightarrow> bool" where
  "isExpired E oa =
     (case expiresAt oa of
        None \<Rightarrow> False
      | Some e \<Rightarrow> time E \<ge> e - 30)"

text \<open>
  \<^verbatim>\<open>OAuth::getAccessToken\<close>. The value returned after a refresh is the token the refresh
  stored.
\<close>

definition getAccessToken :: "php_env \<Rightarrow> oauth \<Rightarrow> effect list \<times> (php_error + string) \<times> oauth" where
  "getAccessToken E oa =
     (case accessToken oa of
        None \<Rightarrow> ([], Inl missingOAuthToken, oa)
      | Some tok \<Rightarrow>
          if isExpired E oa \<and> refreshToken oa \<noteq> None
          then (case refreshAccessToken E oa None of
                  (t, Inl e, oa') \<Rightarrow> (t, Inl e, oa')
                | (t, Inr _, oa') \<Rightarrow>
                    (case accessToken oa' of
                       Some tok' \<Rightarrow> (t, Inr tok', oa')
                     | None \<Rightarrow> (t, Inl TypeError, oa')))
          else ([], Inr tok, oa))"

text \<open>
  \<^verbatim>\<open>OAuth::generateCodeVerifier\<close> and \<^verbatim>\<open>OAuth::generateCodeChallenge\<close>.
\<close>

definition generateCodeVerifier :: "string \<Rightarrow> php_error + (string \<times> string)" where
  "generateCodeVerifier pool =
     (case random_bytes pool 32 of
        Inl e \<Rightarrow> Inl e
      | Inr (bytes, pool') \<Rightarrow> Inr (rtrim (strtr (base64_encode bytes) ''+/'' ''-_'') ''='', pool'))"

definition generateCodeChallenge :: "php_env \<Rightarrow> string \<Rightarrow> string" where
  "generateCodeChallenge E codeVerifier =
     (let hash = sha256_raw E codeVerifier
      in rtrim (strtr (base64_encode hash) ''+/'' ''-_'') ''='')"

text \<open>
  \<^verbatim>\<open>OAuth::getAuthorizationUrl\<close>, in two steps: \<open>authorizationParams\<close> builds the
  \<^verbatim>\<open>$params\<close> array and the verifier, \<open>getAuthorizationUrl\<close> builds the result from them.
  \<^verbatim>\<open>$state ?: ...\<close> takes the random value when \<open>state\<close> is falsy, that is empty or
  \<^verbatim>\<open>"0"\<close>.
\<close>

definition authorizationParams :: "oauth \<Rightarrow> php_env \<Rightarrow> string \<Rightarrow> string \<Rightarrow> string list \<Rightarrow> string
    \<Rightarrow> php_error + ((string \<times> string) list \<times> string option \<times> string)" where
  "authorizationParams oa E pool redirectUri scopes state =
     (case (if state = [] \<or> state = ''0''
            then (case random_bytes pool 16 of
                    Inl e \<Rightarrow> Inl e
                  | Inr (bytes, pool') \<Rightarrow> Inr (bin2hex bytes, pool'))
            else Inr (state, pool)) of
        Inl e \<Rightarrow> Inl e
      | Inr (st, pool1) \<Rightarrow>
          (let params = [(''response_type'', ''code''),
                         (''client_id'', clientId oa),
                         (''redirect_uri'', redirectUri),
                         (''state'', st)]
                        @ (if scopes \<noteq> [] then [(''scope'', implode '' '' scopes)] else [])
           in if pkceRequired oa
              then (case generateCodeVerifier pool1 of
                      Inl e \<Rightarrow> Inl e
                    | Inr (codeVerifier, pool2) \<Rightarrow>
                        (let codeChallenge = generateCodeChallenge E codeVerifier
                         in Inr (params @ [(''code_challenge'', codeChallenge),
                                           (''code_challenge_method'', ''S256'')],
                                 Some codeVerifier, pool2)))
              else Inr (params, None, pool1)))"

record authorization_result =
  url :: string
  code_verifier :: "string option"

definition getAuthorizationUrl :: "oauth \<Rightarrow> php_env \<Rightarrow> string \<Rightarrow> string \<Rightarrow> string list \<Rightarrow> string
    \<Rightarrow> php_error + (authorization_result \<times> string)" where
  "getAuthorizationUrl oa E pool redirectUri scopes state =
     (case authorizationParams oa E pool redirectUri scopes state of
        Inl e \<Rightarrow> Inl e
      | Inr (params, verifier, pool') \<Rightarrow>
          Inr (\<lparr>url = authorizationUrl oa @ ''?'' @ http_build_query E params,
                code_verifier = verifier\<rparr>, pool'))"

text \<open>
  RFC 7636 in its own words. The unreserved characters are
  \<^verbatim>\<open>[A-Z] / [a-z] / [0-9] / "-" / "." / "_" / "~"\<close>, and \<open>BASE64URL\<close> is the base64url
  encoding of RFC 4648, section 5, with the trailing \<open>=\<close> omitted.
\<close>

definition unreserved_chars :: string where
  "unreserved_chars = ''ABCDEFGHIJKLMNOPQRSTUVWXYZabcdefghijklmnopqrstuvwxyz0123456789-._~''"

definition base64url_chars :: string where
  "base64url_chars = ''ABCDEFGHIJKLMNOPQRSTUVWXYZabcdefghijklmnopqrstuvwxyz0123456789-_''"

definition b64url :: "nat \<Rightarrow> char" where
  "b64url n = base64url_chars ! n"

fun BASE64URL :: "string \<Rightarrow> string" where
  "BASE64URL (a # b # c # rest) =
     [b64url (of_char a div 4),
      b64url ((of_char a mod 4) * 16 + of_char b div 16),
      b64url ((of_char b mod 16) * 4 + of_char c div 64),
      b64url (of_char c mod 64)] @ BASE64URL rest"
| "BASE64URL [a, b] =
     [b64url (of_char a div 4),
      b64url ((of_char a mod 4) * 16 + of_char b div 16),
      b64url ((of_char b mod 16) * 4)]"
| "BASE64URL [a] =
     [b64url (of_char a div 4),
      b64url ((of_char a mod 4) * 16)]"
| "BASE64URL [] = []"
subsection \<open>Exceptions built from a response\<close>

text \<open>
  \<^verbatim>\<open>IaJsonException::fromResponse\<close> builds an exception of the class it is called on
  (\<^verbatim>\<open>new static\<close>), here the constructor \<open>mk\<close>. The constructor's \<^verbatim>\<open>message\<close> is a
  \<^verbatim>\<open>string\<close> and its \<^verbatim>\<open>errorCode\<close> a \<^verbatim>\<open>?string\<close>: a value of another type raises
  \<^verbatim>\<open>TypeError\<close>.
\<close>

definition fromResponse :: "(string option \<Rightarrow> php_error) \<Rightarrow> json \<Rightarrow> php_error" where
  "fromResponse mk responseBody =
     (let error = (case php_index responseBody ''error'' of JNull \<Rightarrow> JArr [] | e \<Rightarrow> e);
          errorCode = php_index error ''code'';
          message = (case php_index error ''message'' of JNull \<Rightarrow> JStr ''Unknown ia.json error'' | m \<Rightarrow> m)
      in case message of
           JStr m \<Rightarrow>
             (case errorCode of
                JNull \<Rightarrow> mk None
              | JStr c \<Rightarrow> mk (Some c)
              | _ \<Rightarrow> TypeError)
         | _ \<Rightarrow> TypeError)"

subsection \<open>Register\<close>

text \<open>\<^verbatim>\<open>explode\<close> with a one-byte delimiter; its result is never the empty list.\<close>

fun explode :: "char \<Rightarrow> string \<Rightarrow> string list" where
  "explode d [] = [[]]"
| "explode d (c # cs) =
     (if c = d then [] # explode d cs
      else (case explode d cs of
              x # xs \<Rightarrow> (c # x) # xs
            | [] \<Rightarrow> [[c]]))"

text \<open>\<^verbatim>\<open>Register::verify\<close>, step 3 of the registration handshake.\<close>

definition verification_request :: "string \<Rightarrow> string \<Rightarrow> http_request" where
  "verification_request verifyUrl verificationCode =
     \<lparr>req_method = ''POST'', req_url = verifyUrl,
      req_headers = [(''Content-Type'', ''application/json''), (''Accept'', ''application/json'')],
      req_query = [],
      req_body = JsonBody (JObj [(''verification_code'', JStr verificationCode)])\<rparr>"

definition Register_verify :: "php_env \<Rightarrow> string \<Rightarrow> string \<Rightarrow> effect list \<times> (php_error + json)" where
  "Register_verify E verifyUrl verificationCode =
     (case guzzle_request E (client_http_errors E) (verification_request verifyUrl verificationCode) of
        (t, GuzzleException) \<Rightarrow> (t, Inl (IaJsonException (Some ''verification_failed'')))
      | (t, GuzzleResponse statusCode hs raw) \<Rightarrow>
          (let body = json_decode_or_null E raw in
           if \<not> is_array body
           then (t, Inl (IaJsonException (Some ''invalid_response'')))
           else if statusCode \<ge> 400
           then (t, Inl (fromResponse IaJsonException body))
           else if php_empty (php_index body ''api_key'') \<or> php_empty (php_index body ''secret'')
           then (t, Inl (IaJsonException (Some ''invalid_response'')))
           else (t, Inr body)))"

text \<open>\<^verbatim>\<open>Register::deriveVerifyUrl\<close>: the last path segment is replaced by \<open>verify\<close>.\<close>

definition deriveVerifyUrl :: "php_env \<Rightarrow> string \<Rightarrow> php_error + string" where
  "deriveVerifyUrl E registerUrl =
     (case parse_url E registerUrl of
        None \<Rightarrow> Inl (IaJsonException (Some ''invalid_url''))
      | Some parts \<Rightarrow>
          (case (url_scheme parts, url_host parts) of
             (Some sc, Some h) \<Rightarrow>
               (let p = (case url_path parts of Some p \<Rightarrow> p | None \<Rightarrow> ''/'');
                    pathSegments = butlast (explode CHR ''/'' (rtrim p ''/'')) @ [''verify''];
                    prt = (case url_port parts of Some n \<Rightarrow> '':'' @ string_of_nat n | None \<Rightarrow> [])
                in Inr (sc @ ''://'' @ h @ prt @ implode ''/'' pathSegments))
           | _ \<Rightarrow> Inl (IaJsonException (Some ''invalid_url''))))"

subsection \<open>IaJsonClient: state and registration\<close>

text \<open>
  The mutable fields of \<^verbatim>\<open>IaJsonClient\<close>. \<open>spec\<close> is the decoded manifest, a loosely
  typed array in the source.
\<close>

record client =
  spec :: json
  apiKey :: "string option"
  secret :: "string option"
  oauth :: "oauth option"
  oauthToken :: "string option"

definition getSignedKeyConfig :: "client \<Rightarrow> php_error + json" where
  "getSignedKeyConfig c =
     (let signedKey = php_index (php_index (spec c) ''auth'') ''signed_key'' in
      if signedKey = JNull then Inl (IaJsonException (Some ''signed_key_not_supported''))
      else if is_array signedKey then Inr signedKey
      else Inl TypeError)"

text \<open>
  \<^verbatim>\<open>IaJsonClient::setCredentials(string $apiKey, string $secret)\<close>: an argument that is
  not a string raises \<^verbatim>\<open>TypeError\<close> before anything is assigned.
\<close>

definition setCredentials :: "client \<Rightarrow> json \<Rightarrow> json \<Rightarrow> php_error + client" where
  "setCredentials c k s =
     (case (k, s) of
        (JStr k', JStr s') \<Rightarrow> Inr (c\<lparr>apiKey := Some k', secret := Some s'\<rparr>)
      | _ \<Rightarrow> Inl TypeError)"

text \<open>
  \<^verbatim>\<open>IaJsonClient::verify\<close>. The URL is the one supplied, or else the one derived from
  \<^verbatim>\<open>register_url\<close>. The result carries the client as it is when the call ends, after a
  return and after an exception alike.
\<close>

definition verification_url :: "php_env \<Rightarrow> json \<Rightarrow> string option \<Rightarrow> php_error + string" where
  "verification_url E signedKey verifyUrl =
     (case verifyUrl of
        Some u \<Rightarrow> Inr u
      | None \<Rightarrow>
          (case php_index signedKey ''register_url'' of
             JStr registerUrl \<Rightarrow> deriveVerifyUrl E registerUrl
           | _ \<Rightarrow> Inl TypeError))"

definition IaJsonClient_verify :: "php_env \<Rightarrow> client \<Rightarrow> string \<Rightarrow> string option
    \<Rightarrow> effect list \<times> (php_error + json) \<times> client" where
  "IaJsonClient_verify E c verificationCode verifyUrl =
     (case getSignedKeyConfig c of
        Inl e \<Rightarrow> ([], Inl e, c)
      | Inr signedKey \<Rightarrow>
          (case verification_url E signedKey verifyUrl of
             Inl e \<Rightarrow> ([], Inl e, c)
           | Inr u \<Rightarrow>
               (case Register_verify E u verificationCode of
                  (t, Inl e) \<Rightarrow> (t, Inl e, c)
                | (t, Inr credentials) \<Rightarrow>
                    (case setCredentials c (php_index credentials ''api_key'')
                            (php_index credentials ''secret'') of
                       Inl e \<Rightarrow> (t, Inl e, c)
                     | Inr c' \<Rightarrow> (t, Inr credentials, c')))))"

subsection \<open>Discovery\<close>

definition MAX_FILE_SIZE :: nat where
  "MAX_FILE_SIZE = 1048576"

definition SUPPORTED_MAJOR_VERSION :: string where
  "SUPPORTED_MAJOR_VERSION = ''1''"

definition starts_with :: "string \<Rightarrow> string \<Rightarrow> bool" where
  "starts_with s p = (take (length p) s = p)"

text \<open>
  \<^verbatim>\<open>Discovery::normalizeDomain\<close>: the leading \<^verbatim>\<open>http://\<close> or \<^verbatim>\<open>https://\<close> is removed
  (\<^verbatim>\<open>#^https?://#\<close>), then everything from the first \<open>/\<close>, then trailing dots.
\<close>

definition strip_scheme :: "string \<Rightarrow> string" where
  "strip_scheme s =
     (if starts_with s ''https://'' then drop 8 s
      else if starts_with s ''http://'' then drop 7 s
      else s)"

definition normalizeDomain :: "string \<Rightarrow> php_error + string" where
  "normalizeDomain domain =
     (let d1 = strip_scheme domain;
          d2 = (case explode CHR ''/'' d1 of x # _ \<Rightarrow> x | [] \<Rightarrow> []);
          d3 = rtrim d2 ''.''
      in if d3 = [] then Inl (IaJsonException (Some ''invalid_domain'')) else Inr d3)"

definition discovery_request :: "string \<Rightarrow> http_request" where
  "discovery_request u =
     \<lparr>req_method = ''GET'', req_url = u,
      req_headers = [(''Accept'', ''application/json''), (''User-Agent'', ''iajson-php/1.0.0'')],
      req_query = [], req_body = NoBody\<rparr>"

text \<open>
  \<^verbatim>\<open>Discovery::tryFetch\<close>. The request turns \<^verbatim>\<open>http_errors\<close> off, so a status is
  always seen by the code. \<open>None\<close> is the source's \<^verbatim>\<open>null\<close>: not found here.
\<close>

definition Discovery_tryFetch :: "php_env \<Rightarrow> string \<Rightarrow> effect list \<times> (php_error + json option)" where
  "Discovery_tryFetch E u =
     (case guzzle_request E False (discovery_request u) of
        (t, GuzzleException) \<Rightarrow> (t, Inl (IaJsonException (Some ''network_error'')))
      | (t, GuzzleResponse statusCode hs rawBody) \<Rightarrow>
          if statusCode = 404 then (t, Inr None)
          else if statusCode \<ge> 400 then (t, Inl (IaJsonException (Some ''fetch_failed'')))
          else if length rawBody > MAX_FILE_SIZE then (t, Inl (IaJsonException (Some ''file_too_large'')))
          else (case json_decode E rawBody of
                  None \<Rightarrow> (t, Inl (IaJsonException (Some ''parse_error'')))
                | Some data \<Rightarrow>
                    if \<not> is_array data then (t, Inl (IaJsonException (Some ''invalid_format'')))
                    else (t, Inr (Some data))))"

text \<open>
  \<^verbatim>\<open>Discovery::validate\<close>. \<^verbatim>\<open>explode('.', $version)\<close> raises \<^verbatim>\<open>TypeError\<close> when the
  version is not a string.
\<close>

definition Discovery_validate :: "json \<Rightarrow> php_error + json" where
  "Discovery_validate data =
     (if \<not> php_isset (php_index data ''version'') \<or> \<not> php_isset (php_index data ''site'')
         \<or> \<not> php_isset (php_index data ''api'')
      then Inl (IaJsonException (Some ''validation_error''))
      else (case php_index data ''version'' of
              JStr version \<Rightarrow>
                (let majorVersion = (case explode CHR ''.'' version of x # _ \<Rightarrow> x | [] \<Rightarrow> []) in
                 if majorVersion \<noteq> SUPPORTED_MAJOR_VERSION
                 then Inl (IaJsonException (Some ''unsupported_version''))
                 else if \<not> (php_isset (php_index (php_index data ''site'') ''name'')
                            \<and> php_isset (php_index (php_index data ''site'') ''type''))
                 then Inl (IaJsonException (Some ''validation_error''))
                 else if \<not> php_isset (php_index (php_index data ''api'') ''base_url'')
                 then Inl (IaJsonException (Some ''validation_error''))
                 else (let hasEndpoints =
                             php_isset (php_index (php_index data ''api'') ''public'')
                           \<or> php_isset (php_index (php_index data ''api'') ''protected'')
                           \<or> php_isset (php_index (php_index data ''api'') ''user_required'')
                       in if \<not> hasEndpoints
                          then Inl (IaJsonException (Some ''validation_error''))
                          else Inr data))
            | _ \<Rightarrow> Inl TypeError))"

definition primary_url :: "string \<Rightarrow> string" where
  "primary_url domain = ''https://'' @ domain @ ''/ia.json''"

definition well_known_url :: "string \<Rightarrow> string" where
  "well_known_url domain = ''https://'' @ domain @ ''/.well-known/ia.json''"

text \<open>\<^verbatim>\<open>Discovery::fetch\<close>.\<close>

definition Discovery_fetch :: "php_env \<Rightarrow> string \<Rightarrow> effect list \<times> (php_error + json)" where
  "Discovery_fetch E domain0 =
     (case normalizeDomain domain0 of
        Inl e \<Rightarrow> ([], Inl e)
      | Inr domain \<Rightarrow>
          (let primaryUrl = primary_url domain in
           case Discovery_tryFetch E primaryUrl of
             (t, Inl e) \<Rightarrow> (t, Inl e)
           | (t, Inr (Some data)) \<Rightarrow> (t, Discovery_validate data)
           | (t, Inr None) \<Rightarrow>
               (let wellKnownUrl = well_known_url domain in
                case Discovery_tryFetch E wellKnownUrl of
                  (t', Inl e) \<Rightarrow> (t @ t', Inl e)
                | (t', Inr (Some data)) \<Rightarrow> (t @ t', Discovery_validate data)
                | (t', Inr None) \<Rightarrow> (t @ t', Inl (IaJsonException (Some ''not_found''))))))"

text \<open>\<^verbatim>\<open>IaJsonClient::discover\<close>: a fresh client around the fetched manifest.\<close>

definition IaJsonClient_discover :: "php_env \<Rightarrow> string \<Rightarrow> effect list \<times> (php_error + client)" where
  "IaJsonClient_discover E domain =
     (case Discovery_fetch E domain of
        (t, Inl e) \<Rightarrow> (t, Inl e)
      | (t, Inr data) \<Rightarrow>
          (t, Inr \<lparr>spec = data, apiKey = None, secret = None, oauth = None, oauthToken = None\<rparr>))"

subsection \<open>IaJsonClient: calling an endpoint\<close>

text \<open>
  PHP arrays with string keys are ordered: assigning to a key that exists replaces its value
  in place, assigning to a new key appends. \<^verbatim>\<open>array_merge\<close> assigns the entries of its
  second argument in order; \<^verbatim>\<open>unset\<close> removes a key.
\<close>

fun array_set :: "'k \<Rightarrow> 'v \<Rightarrow> ('k \<times> 'v) list \<Rightarrow> ('k \<times> 'v) list" where
  "array_set k v [] = [(k, v)]"
| "array_set k v ((k', v') # al) = (if k' = k then (k, v) # al else (k', v') # array_set k v al)"

definition array_merge :: "('k \<times> 'v) list \<Rightarrow> ('k \<times> 'v) list \<Rightarrow> ('k \<times> 'v) list" where
  "array_merge a b = fold (\<lambda>(k, v). array_set k v) b a"

definition array_unset :: "'k \<Rightarrow> ('k \<times> 'v) list \<Rightarrow> ('k \<times> 'v) list" where
  "array_unset k al = filter (\<lambda>(k', v). k' \<noteq> k) al"

definition to_upper :: "char \<Rightarrow> char" where
  "to_upper c =
     (case map_of (zip ''abcdefghijklmnopqrstuvwxyz'' ''ABCDEFGHIJKLMNOPQRSTUVWXYZ'') c of
        Some u \<Rightarrow> u
      | None \<Rightarrow> c)"

definition strtoupper :: "string \<Rightarrow> string" where
  "strtoupper s = map to_upper s"

text \<open>
  \<^verbatim>\<open>IaJsonClient::resolveEndpoint\<close>: the tiers are searched in the order of
  \<^verbatim>\<open>$levels\<close>. \<^verbatim>\<open>array_merge($endpoints[$name], ['_level' => $level])\<close> raises
  \<^verbatim>\<open>TypeError\<close> when the entry is not an array; the model returns the level beside the
  entry instead of under the key \<^verbatim>\<open>_level\<close>.
\<close>

definition levels :: "string list" where
  "levels = [''public'', ''protected'', ''user_required'']"

fun resolve_in :: "json \<Rightarrow> string list \<Rightarrow> string \<Rightarrow> php_error + (string \<times> json)" where
  "resolve_in api [] name = Inl (IaJsonException (Some ''endpoint_not_found''))"
| "resolve_in api (level # rest) name =
     (let endpoints = (case php_index api level of JNull \<Rightarrow> JArr [] | g \<Rightarrow> g) in
      if php_isset (php_index endpoints name)
      then (if is_array (php_index endpoints name)
            then Inr (level, php_index endpoints name)
            else Inl TypeError)
      else resolve_in api rest name)"

definition resolveEndpoint :: "client \<Rightarrow> string \<Rightarrow> php_error + (string \<times> json)" where
  "resolveEndpoint c name = resolve_in (php_index (spec c) ''api'') levels name"

text \<open>
  \<^verbatim>\<open>IaJsonClient::substitutePath\<close>: \<^verbatim>\<open>preg_replace_callback('/\{(\w+)\}/', ...)\<close> scans
  the path from the left. At a \<open>{\<close> followed by one or more word characters and a
  \<open>}\<close> the callback runs: it raises for a name that is not a key of \<open>params\<close>, and
  otherwise consumes the parameter and yields its encoded value. Anywhere else the
  character is copied.
\<close>

definition word_chars :: string where
  "word_chars = ''abcdefghijklmnopqrstuvwxyzABCDEFGHIJKLMNOPQRSTUVWXYZ0123456789_''"

definition word_char :: "char \<Rightarrow> bool" where
  "word_char c = (c \<in> set word_chars)"

function substitutePath :: "php_env \<Rightarrow> string \<Rightarrow> (string \<times> json) list
    \<Rightarrow> php_error + (string \<times> (string \<times> json) list)" where
  "substitutePath E [] params = Inr ([], params)"
| "substitutePath E (c # cs) params =
     (if c = CHR ''{'' \<and> takeWhile word_char cs \<noteq> [] \<and> starts_with (dropWhile word_char cs) ''}''
      then (let paramName = takeWhile word_char cs in
            case map_of params paramName of
              None \<Rightarrow> Inl (IaJsonException (Some ''missing_parameter''))
            | Some v \<Rightarrow>
                (case substitutePath E (drop 1 (dropWhile word_char cs)) (array_unset paramName params) of
                   Inl e \<Rightarrow> Inl e
                 | Inr (p, ps) \<Rightarrow> Inr (rawurlencode E (strval E v) @ p, ps)))
      else (case substitutePath E cs params of
              Inl e \<Rightarrow> Inl e
            | Inr (p, ps) \<Rightarrow> Inr (c # p, ps)))"
  by pat_completeness auto
termination
  by (relation "measure (\<lambda>(E, s, ps). length s)")
     (auto simp: less_Suc_eq_le intro: le_trans [OF diff_le_self length_dropWhile_le])

declare substitutePath.simps [simp del]

text \<open>
  Lines 190 to 219 of \<^verbatim>\<open>IaJsonClient::call\<close>: method, path, URL, request options and the
  serialized body. The second component is \<^verbatim>\<open>$body\<close>, the string handed to
  \<open>applyAuth\<close>; it is the body sent, or empty when none is sent.
\<close>

definition buildRequest :: "php_env \<Rightarrow> client \<Rightarrow> json \<Rightarrow> (string \<times> json) list
    \<Rightarrow> php_error + (http_request \<times> string)" where
  "buildRequest E c endpoint params0 =
     (case php_index endpoint ''method'' of
        JStr m \<Rightarrow>
          (let method = strtoupper m in
           case php_index endpoint ''path'' of
             JStr path0 \<Rightarrow>
               (let baseUrl = php_index (php_index (spec c) ''api'') ''base_url'' in
                case substitutePath E path0 params0 of
                  Inl e \<Rightarrow> Inl e
                | Inr (path1, params) \<Rightarrow>
                    (case baseUrl of
                       JStr b \<Rightarrow>
                         (let u = rtrim b ''/'' @ ''/'' @ ltrim path1 ''/'';
                              headers = [(''Accept'', ''application/json''),
                                         (''User-Agent'', ''iajson-php/1.0.0'')]
                          in if method \<in> set [''POST'', ''PUT'', ''PATCH''] \<and> params \<noteq> []
                             then (case json_encode E (JObj params) of
                                     None \<Rightarrow> Inl JsonException
                                   | Some body \<Rightarrow>
                                       Inr (\<lparr>req_method = method, req_url = u,
                                             req_headers = array_set ''Content-Type'' ''application/json'' headers,
                                             req_query = [], req_body = RawBody body\<rparr>, body))
                             else if method = ''GET'' \<and> params \<noteq> []
                             then Inr (\<lparr>req_method = method, req_url = u, req_headers = headers,
                                        req_query = params, req_body = NoBody\<rparr>, [])
                             else Inr (\<lparr>req_method = method, req_url = u, req_headers = headers,
                                        req_query = [], req_body = NoBody\<rparr>, []))
                     | _ \<Rightarrow> Inl TypeError))
           | _ \<Rightarrow> Inl TypeError)
      | _ \<Rightarrow> Inl TypeError)"

text \<open>
  \<^verbatim>\<open>IaJsonClient::applyAuth\<close>: the headers to send, for the tier \<open>level\<close> and the
  serialized body. The helper held in \<open>oauth\<close> may refresh its token, so the client is
  returned as well.
\<close>

definition applyAuth :: "php_env \<Rightarrow> client \<Rightarrow> (string \<times> string) list \<Rightarrow> string \<Rightarrow> string
    \<Rightarrow> effect list \<times> (php_error + (string \<times> string) list) \<times> client" where
  "applyAuth E c headers level body =
     (if level = ''public'' then ([], Inr headers, c)
      else
        (case (if level = ''protected'' \<or> level = ''user_required''
               then (case (apiKey c, secret c) of
                       (Some k, Some s) \<Rightarrow>
                         (let signedKeyConfig = php_index (php_index (spec c) ''auth'') ''signed_key'';
                              algorithm = (case php_index signedKeyConfig ''algorithm'' of
                                             JNull \<Rightarrow> JStr ''sha256'' | a \<Rightarrow> a);
                              prefix = (case php_index signedKeyConfig ''header_prefix'' of
                                          JNull \<Rightarrow> JStr ''X-IA-'' | p \<Rightarrow> p)
                          in case (algorithm, prefix) of
                               (JStr a, JStr p) \<Rightarrow>
                                 (case createSignedHeaders E k s body a p of
                                    (t, Inl e) \<Rightarrow> (t, Inl e)
                                  | (t, Inr signedHeaders) \<Rightarrow> (t, Inr (array_merge headers signedHeaders)))
                             | _ \<Rightarrow> ([], Inl TypeError))
                     | _ \<Rightarrow> ([], Inl missingCredentials))
               else ([], Inr headers)) of
           (t, Inl e) \<Rightarrow> (t, Inl e, c)
         | (t, Inr headers1) \<Rightarrow>
             if level = ''user_required''
             then (case oauthToken c of
                     Some token \<Rightarrow> (t, Inr (array_set ''Authorization'' (''Bearer '' @ token) headers1), c)
                   | None \<Rightarrow>
                       (case oauth c of
                          None \<Rightarrow> (t, Inl missingOAuthToken, c)
                        | Some oa \<Rightarrow>
                            (case getAccessToken E oa of
                               (t', Inl (AuthenticationException code), oa') \<Rightarrow>
                                 (t @ t', Inl missingOAuthToken, c\<lparr>oauth := Some oa'\<rparr>)
                             | (t', Inl e, oa') \<Rightarrow> (t @ t', Inl e, c\<lparr>oauth := Some oa'\<rparr>)
                             | (t', Inr token, oa') \<Rightarrow>
                                 (t @ t',
                                  Inr (array_set ''Authorization'' (''Bearer '' @ token) headers1),
                                  c\<lparr>oauth := Some oa'\<rparr>))))
             else (t, Inr headers1, c)))"

text \<open>The response side of \<^verbatim>\<open>IaJsonClient::call\<close>.\<close>

definition decode_response :: "php_env \<Rightarrow> string \<Rightarrow> json" where
  "decode_response E responseBody =
     (if responseBody = [] then JArr []
      else (case json_decode E responseBody of
              None \<Rightarrow> JObj [(''raw'', JStr responseBody)]
            | Some d \<Rightarrow> if is_array d then d else JObj [(''data'', d)]))"

definition fromResponseWithHeaders :: "php_env \<Rightarrow> json \<Rightarrow> (string \<times> string) list \<Rightarrow> php_error" where
  "fromResponseWithHeaders E responseBody hs =
     (let error = (case php_index responseBody ''error'' of JNull \<Rightarrow> JArr [] | e \<Rightarrow> e);
          message = (case php_index error ''message'' of JNull \<Rightarrow> JStr ''Rate limit exceeded'' | m \<Rightarrow> m);
          retryHeader = (case map_of hs ''Retry-After'' of
                           Some h \<Rightarrow> Some h
                         | None \<Rightarrow> map_of hs ''retry-after'')
      in case message of
           JStr m \<Rightarrow> RateLimitException (map_option (\<lambda>h. intval E (JStr h)) retryHeader)
         | _ \<Rightarrow> TypeError)"

definition handleErrorResponse :: "php_env \<Rightarrow> nat \<Rightarrow> json \<Rightarrow> (string \<times> string) list \<Rightarrow> php_error" where
  "handleErrorResponse E statusCode body hs =
     (if statusCode = 429 then fromResponseWithHeaders E body hs
      else if statusCode = 401 \<or> statusCode = 403 then fromResponse AuthenticationException body
      else fromResponse IaJsonException body)"

text \<open>\<^verbatim>\<open>IaJsonClient::call\<close>.\<close>

definition call :: "php_env \<Rightarrow> client \<Rightarrow> string \<Rightarrow> (string \<times> json) list
    \<Rightarrow> effect list \<times> (php_error + json) \<times> client" where
  "call E c endpointName params =
     (case resolveEndpoint c endpointName of
        Inl e \<Rightarrow> ([], Inl e, c)
      | Inr (level, endpoint) \<Rightarrow>
          (case buildRequest E c endpoint params of
             Inl e \<Rightarrow> ([], Inl e, c)
           | Inr (request, body) \<Rightarrow>
               (case applyAuth E c (req_headers request) level body of
                  (t, Inl e, c') \<Rightarrow> (t, Inl e, c')
                | (t, Inr headers, c') \<Rightarrow>
                    (case guzzle_request E False (request\<lparr>req_headers := headers\<rparr>) of
                       (t', GuzzleException) \<Rightarrow>
                         (t @ t', Inl (IaJsonException (Some ''request_failed'')), c')
                     | (t', GuzzleResponse statusCode hs responseBody) \<Rightarrow>
                         (let data = decode_response E responseBody in
                          if statusCode \<ge> 400
                          then (t @ t', Inl (handleErrorResponse E statusCode data hs), c')
                          else (t @ t', Inr data, c'))))))"

section \<open>The Node port\<close>

subsection \<open>Errors and the environment\<close>

text \<open>
  The error classes of \<^verbatim>\<open>errors.ts\<close> with their message; a \<open>RateLimitError\<close> carries
  \<^verbatim>\<open>retryAfter\<close>, a \<open>DiscoveryError\<close> the domain and the status code, each absent where
  the source passes none. \<open>FetchFailed\<close> is the rejection of \<^verbatim>\<open>fetch\<close> where the source
  does not catch it, \<open>InvalidURL\<close> the \<^verbatim>\<open>TypeError\<close> of \<^verbatim>\<open>new URL\<close>.
\<close>

datatype node_error =
    IaJsonError string
  | AuthenticationError string
  | RateLimitError string "int option"
  | DiscoveryError string "string option" "nat option"
  | FetchFailed
  | InvalidURL

text \<open>
  The collaborators of the Node port: the clock in seconds
  (\<^verbatim>\<open>Math.floor(Date.now() / 1000)\<close>), HMAC-SHA256 in hex (\<^verbatim>\<open>createHmac\<close>), \<^verbatim>\<open>fetch\<close>,
  \<^verbatim>\<open>JSON.parse\<close> and \<^verbatim>\<open>JSON.stringify\<close>, \<^verbatim>\<open>String\<close>, \<^verbatim>\<open>encodeURIComponent\<close>,
  \<^verbatim>\<open>new URL(path, base)\<close>, \<^verbatim>\<open>url.searchParams.set\<close> followed by \<^verbatim>\<open>url.toString()\<close>, and
  \<^verbatim>\<open>parseInt(_, 10)\<close> where \<open>None\<close> is \<^verbatim>\<open>NaN\<close>.
\<close>

record node_env =
  now_seconds :: int
  hmac_sha256_hex :: "string \<Rightarrow> string \<Rightarrow> string"
  fetch :: "http_request \<Rightarrow> http_outcome"
  JSON_parse :: "string \<Rightarrow> json option"
  JSON_stringify :: "json \<Rightarrow> string"
  String_of :: "json \<Rightarrow> string"
  encodeURIComponent :: "string \<Rightarrow> string"
  URL_resolve :: "string \<Rightarrow> string \<Rightarrow> string option"
  URL_with_query :: "string \<Rightarrow> (string \<times> string) list \<Rightarrow> string"
  parseInt :: "string \<Rightarrow> int option"

subsection \<open>Strings and headers\<close>

fun str_includes :: "string \<Rightarrow> string \<Rightarrow> bool" where
  "str_includes [] sub = (sub = [])"
| "str_includes (c # cs) sub = (starts_with (c # cs) sub \<or> str_includes cs sub)"

text \<open>\<^verbatim>\<open>s.replace(pattern, replacement)\<close> with a string pattern: the first occurrence only.\<close>

fun replace_first :: "string \<Rightarrow> string \<Rightarrow> string \<Rightarrow> string" where
  "replace_first [] pat rep = (if pat = [] then rep else [])"
| "replace_first (c # cs) pat rep =
     (if starts_with (c # cs) pat then rep @ drop (length pat) (c # cs)
      else c # replace_first cs pat rep)"

definition to_lower :: "char \<Rightarrow> char" where
  "to_lower c =
     (case map_of (zip ''ABCDEFGHIJKLMNOPQRSTUVWXYZ'' ''abcdefghijklmnopqrstuvwxyz'') c of
        Some l \<Rightarrow> l
      | None \<Rightarrow> c)"

text \<open>
  \<^verbatim>\<open>response.headers.get(name)\<close>: header names compare without regard to case, and the
  values of a name that occurs more than once are joined with a comma and a space.
\<close>

definition header_get :: "(string \<times> string) list \<Rightarrow> string \<Rightarrow> string option" where
  "header_get hs name =
     (let vs = map snd (filter (\<lambda>(k, v). map to_lower k = map to_lower name) hs)
      in if vs = [] then None else Some (implode '', '' vs))"

subsection \<open>Signer\<close>

text \<open>
  A timestamp is a \<^verbatim>\<open>number\<close> whose value is an integer. The template literal and
  \<^verbatim>\<open>String(timestamp)\<close> print it in decimal when its magnitude is at most \<open>2\<^sup>5\<^sup>3\<close>, where
  every integer is a number of its own; beyond that the digits are those of the nearest
  number and, from \<open>10\<^sup>2\<^sup>1\<close> on, the notation has an exponent, which is left to
  \<^verbatim>\<open>String\<close> of the environment. The clock of \<open>createSignedHeaders\<close> is far inside the
  decimal range.
\<close>

definition number_to_string :: "node_env \<Rightarrow> int \<Rightarrow> string" where
  "number_to_string N n =
     (if \<bar>n\<bar> \<le> 9007199254740992 then string_of_int n else String_of N (JInt n))"

definition node_sign :: "node_env \<Rightarrow> string \<Rightarrow> int \<Rightarrow> string \<Rightarrow> effect list \<times> string" where
  "node_sign N sk timestamp body =
     (let payload = number_to_string N timestamp @ ''.'' @ body
      in ([Hmac ''sha256'' payload sk], hmac_sha256_hex N sk payload))"

definition node_createSignedHeaders :: "node_env \<Rightarrow> string \<Rightarrow> string \<Rightarrow> string \<Rightarrow> string
    \<Rightarrow> effect list \<times> (string \<times> string) list" where
  "node_createSignedHeaders N ak sk body prefix =
     (let timestamp = now_seconds N in
      case node_sign N sk timestamp body of
        (t, signature) \<Rightarrow>
          (t, [(prefix @ ''Key'', ak),
               (prefix @ ''Timestamp'', number_to_string N timestamp),
               (prefix @ ''Signature'', signature)]))"

subsection \<open>Discovery\<close>

definition DISCOVERY_PATHS :: "string list" where
  "DISCOVERY_PATHS = [''/ia.json'', ''/.well-known/ia.json'']"

text \<open>
  Property access and \<^verbatim>\<open>typeof\<close> on a decoded value. An array is an object for
  \<^verbatim>\<open>typeof\<close> and has none of the properties the source reads.
\<close>

definition js_get :: "json \<Rightarrow> string \<Rightarrow> json option" where
  "js_get x k = (case x of JObj kvs \<Rightarrow> obj_get kvs k | _ \<Rightarrow> None)"

fun is_object :: "json \<Rightarrow> bool" where
  "is_object (JObj kvs) = True"
| "is_object (JArr xs) = True"
| "is_object _ = False"

text \<open>The test \<^verbatim>\<open>/^\d+\.\d+\.\d+$/\<close>.\<close>

definition digit :: "char \<Rightarrow> bool" where
  "digit c = (c \<in> set ''0123456789'')"

definition semver_test :: "string \<Rightarrow> bool" where
  "semver_test s =
     (takeWhile digit s \<noteq> [] \<and>
      (case dropWhile digit s of
         [] \<Rightarrow> False
       | c1 # s1 \<Rightarrow>
           c1 = CHR ''.'' \<and> takeWhile digit s1 \<noteq> [] \<and>
           (case dropWhile digit s1 of
              [] \<Rightarrow> False
            | c2 # s2 \<Rightarrow> c2 = CHR ''.'' \<and> s2 \<noteq> [] \<and> list_all digit s2)))"

text \<open>\<^verbatim>\<open>validate\<close> of \<^verbatim>\<open>discovery.ts\<close>: the first failing check raises.\<close>

definition validate :: "json \<Rightarrow> string \<Rightarrow> node_error + unit" where
  \<open>validate data domain =
     (if \<not> is_object data
      then Inl (DiscoveryError ''ia.json response is not a JSON object'' (Some domain) None)
      else if \<not> (case js_get data ''version'' of Some (JStr v) \<Rightarrow> semver_test v | _ \<Rightarrow> False)
      then Inl (DiscoveryError ''ia.json must contain a valid "version" field (semver string)''
                  (Some domain) None)
      else (case js_get data ''site'' of
              None \<Rightarrow> Inl (DiscoveryError ''ia.json must contain a "site" object'' (Some domain) None)
            | Some site \<Rightarrow>
                if \<not> is_object site
                then Inl (DiscoveryError ''ia.json must contain a "site" object'' (Some domain) None)
                else if \<not> (case js_get site ''name'' of Some (JStr n) \<Rightarrow> n \<noteq> [] | _ \<Rightarrow> False)
                then Inl (DiscoveryError ''ia.json site.name must be a non-empty string'' (Some domain) None)
                else if \<not> (case js_get site ''type'' of Some (JStr ty) \<Rightarrow> True | _ \<Rightarrow> False)
                then Inl (DiscoveryError ''ia.json site.type must be a string'' (Some domain) None)
                else (case js_get data ''api'' of
                        None \<Rightarrow> Inl (DiscoveryError ''ia.json must contain an "api" object'' (Some domain) None)
                      | Some a \<Rightarrow>
                          if \<not> is_object a
                          then Inl (DiscoveryError ''ia.json must contain an "api" object'' (Some domain) None)
                          else if \<not> (case js_get a ''base_url'' of
                                        Some (JStr b) \<Rightarrow> starts_with b ''https://''
                                      | _ \<Rightarrow> False)
                          then Inl (DiscoveryError ''ia.json api.base_url must be an HTTPS URL'' (Some domain) None)
                          else (let hasEndpoints =
                                      list_ex (\<lambda>key. case js_get a key of
                                                       Some g \<Rightarrow> is_object g
                                                     | None \<Rightarrow> False)
                                        [''public'', ''protected'', ''user_required'']
                                in if \<not> hasEndpoints
                                   then Inl (DiscoveryError
                                     ''ia.json api must contain at least one endpoint group (public, protected, or user_required)''
                                     (Some domain) None)
                                   else Inr ()))))\<close>

definition node_discovery_request :: "string \<Rightarrow> http_request" where
  "node_discovery_request u =
     \<lparr>req_method = ''GET'', req_url = u, req_headers = [(''Accept'', ''application/json'')],
      req_query = [], req_body = NoBody\<rparr>"

text \<open>
  \<^verbatim>\<open>tryFetch\<close> of \<^verbatim>\<open>discovery.ts\<close>; \<^verbatim>\<open>response.ok\<close> is a status from 200 to 299. There
  is no limit on the size of the body.
\<close>

definition tryFetch :: "node_env \<Rightarrow> string \<Rightarrow> string \<Rightarrow> effect list \<times> (node_error + json option)" where
  \<open>tryFetch N u domain =
     (case fetch N (node_discovery_request u) of
        TransportError message \<Rightarrow>
          ([Http (node_discovery_request u)],
           Inl (DiscoveryError (''Network error fetching '' @ u @ '': '' @ message) (Some domain) None))
      | Response status hs body \<Rightarrow>
          ([Http (node_discovery_request u)],
           (if status = 404 then Inr None
            else if \<not> (200 \<le> status \<and> status \<le> 299)
            then Inl (DiscoveryError (''HTTP '' @ string_of_nat status @ '' fetching '' @ u)
                        (Some domain) (Some status))
            else (let contentType = (case header_get hs ''content-type'' of Some v \<Rightarrow> v | None \<Rightarrow> [])
                  in if \<not> str_includes contentType ''json'' \<and> \<not> str_includes contentType ''text/plain''
                     then Inl (DiscoveryError
                                 (''Unexpected content-type "'' @ contentType @ ''" from '' @ u)
                                 (Some domain) None)
                     else (case JSON_parse N body of
                             None \<Rightarrow> Inl (DiscoveryError (''Invalid JSON in response from '' @ u)
                                             (Some domain) None)
                           | Some data \<Rightarrow>
                               (case validate data domain of
                                  Inl e \<Rightarrow> Inl e
                                | Inr _ \<Rightarrow> Inr (Some data)))))))\<close>

text \<open>\<^verbatim>\<open>discover\<close> of \<^verbatim>\<open>discovery.ts\<close>: the loop over \<open>DISCOVERY_PATHS\<close>, then the function.\<close>

definition discovery_url :: "string \<Rightarrow> string \<Rightarrow> string" where
  "discovery_url cleanDomain p = ''https://'' @ cleanDomain @ p"

fun try_paths :: "node_env \<Rightarrow> string \<Rightarrow> string list \<Rightarrow> effect list \<times> (node_error + json option)" where
  "try_paths N cleanDomain [] = ([], Inr None)"
| "try_paths N cleanDomain (p # ps) =
     (case tryFetch N (discovery_url cleanDomain p) cleanDomain of
        (t, Inl e) \<Rightarrow> (t, Inl e)
      | (t, Inr (Some cfg)) \<Rightarrow> (t, Inr (Some cfg))
      | (t, Inr None) \<Rightarrow> (case try_paths N cleanDomain ps of (t', r) \<Rightarrow> (t @ t', r)))"

definition cleanDomain_of :: "string \<Rightarrow> string" where
  "cleanDomain_of domain = rtrim (strip_scheme domain) ''/''"

definition discover :: "node_env \<Rightarrow> string \<Rightarrow> effect list \<times> (node_error + json)" where
  "discover N domain =
     (if domain = [] then ([], Inl (DiscoveryError ''domain must be a non-empty string'' None None))
      else (let cleanDomain = cleanDomain_of domain in
            case try_paths N cleanDomain DISCOVERY_PATHS of
              (t, Inl e) \<Rightarrow> (t, Inl e)
            | (t, Inr (Some cfg)) \<Rightarrow> (t, Inr cfg)
            | (t, Inr None) \<Rightarrow>
                (t, Inl (DiscoveryError
                           (''No ia.json found at '' @ cleanDomain @ '' (tried /ia.json and /.well-known/ia.json)'')
                           (Some cleanDomain) (Some 404)))))"


subsection \<open>Client\<close>

text \<open>
  The parts of \<^verbatim>\<open>IaJsonConfig\<close> (\<^verbatim>\<open>types.ts\<close>) that \<^verbatim>\<open>client.ts\<close> reads. An optional
  member is an \<open>option\<close>; \<open>signed_key\<close> stands for \<^verbatim>\<open>auth?.signed_key\<close>. An endpoint
  group is the list \<^verbatim>\<open>Object.entries(group)\<close>.
\<close>

record Endpoint =
  http_method :: string
  path :: string

type_synonym EndpointGroup = "(string \<times> Endpoint) list"

record Api =
  base_url :: string
  public :: "EndpointGroup option"
  protected :: "EndpointGroup option"
  user_required :: "EndpointGroup option"

record SignedKeyAuth =
  register_url :: string
  header_prefix :: "string option"

record IaJsonConfig =
  api :: Api
  signed_key :: "SignedKeyAuth option"

record Credentials =
  api_key :: string
  signing_secret :: string

record ResolvedEndpoint =
  name :: string
  level :: string
  endpoint :: Endpoint

text \<open>
  The state of the Node \<^verbatim>\<open>IaJsonClient\<close>. Its \<^verbatim>\<open>endpointIndex\<close> is read-only and built
  from \<open>config\<close> by the constructor, so it is a function of the client.
\<close>

record node_client =
  config :: IaJsonConfig
  credentials :: "Credentials option"
  bearer_token :: "string option"

definition group_of :: "Api \<Rightarrow> string \<Rightarrow> EndpointGroup option" where
  "group_of a lv =
     (if lv = ''public'' then public a
      else if lv = ''protected'' then protected a
      else user_required a)"

text \<open>
  \<^verbatim>\<open>buildEndpointIndex\<close>: \<^verbatim>\<open>index.set(name, ...)\<close> replaces the entry of a name that is
  already in the map.
\<close>

definition buildEndpointIndex :: "IaJsonConfig \<Rightarrow> (string \<times> ResolvedEndpoint) list" where
  "buildEndpointIndex cfg =
     fold (\<lambda>lv index.
             case group_of (api cfg) lv of
               None \<Rightarrow> index
             | Some entries \<Rightarrow>
                 fold (\<lambda>(nm, ep) idx. array_set nm \<lparr>name = nm, level = lv, endpoint = ep\<rparr> idx)
                      entries index)
          [''public'', ''protected'', ''user_required''] []"

definition endpointIndex :: "node_client \<Rightarrow> (string \<times> ResolvedEndpoint) list" where
  "endpointIndex c = buildEndpointIndex (config c)"

definition getEndpoint :: "node_client \<Rightarrow> string \<Rightarrow> ResolvedEndpoint option" where
  "getEndpoint c nm = map_of (endpointIndex c) nm"

text \<open>
  \<^verbatim>\<open>queryParams\<close> and \<^verbatim>\<open>bodyParams\<close> are plain objects, read back through
  \<^verbatim>\<open>Object.entries\<close>, \<^verbatim>\<open>Object.keys\<close> and \<^verbatim>\<open>JSON.stringify\<close>, which all list the own
  properties: first the array indices (the decimal numerals below \<open>2\<^sup>3\<^sup>2 - 1\<close> without a
  leading zero) in ascending order, then the other keys in the order of their creation.
  The assignment \<^verbatim>\<open>obj[key] = value\<close> replaces the value of a key that exists and creates
  the property otherwise; for the key \<^verbatim>\<open>__proto__\<close> it creates no property (it sets the
  prototype, or does nothing when the value is not an object).
\<close>

definition digit_value :: "char \<Rightarrow> nat" where
  "digit_value c =
     (case map_of (zip ''0123456789'' [0, 1, 2, 3, 4, 5, 6, 7, 8, 9]) c of
        Some d \<Rightarrow> d
      | None \<Rightarrow> 0)"

definition array_index :: "string \<Rightarrow> nat option" where
  "array_index key =
     (let n = fold (\<lambda>c acc. 10 * acc + digit_value c) key 0 in
      if key \<noteq> [] \<and> list_all digit key \<and> (key = ''0'' \<or> take 1 key \<noteq> ''0'') \<and> n < 4294967295
      then Some n else None)"

fun insert_index :: "nat \<Rightarrow> string \<Rightarrow> 'v \<Rightarrow> (string \<times> 'v) list \<Rightarrow> (string \<times> 'v) list" where
  "insert_index i key v [] = [(key, v)]"
| "insert_index i key v ((k', v') # rest) =
     (if k' = key then (key, v) # rest
      else (case array_index k' of
              Some j \<Rightarrow>
                if j < i then (k', v') # insert_index i key v rest
                else (key, v) # (k', v') # rest
            | None \<Rightarrow> (key, v) # (k', v') # rest))"

definition js_set :: "string \<Rightarrow> 'v \<Rightarrow> (string \<times> 'v) list \<Rightarrow> (string \<times> 'v) list" where
  "js_set key v obj =
     (if key = ''__proto__'' then obj
      else (case array_index key of
              Some i \<Rightarrow> insert_index i key v obj
            | None \<Rightarrow> array_set key v obj))"

text \<open>
  The loop of \<^verbatim>\<open>call\<close> over \<^verbatim>\<open>Object.entries(params)\<close>, which is the list \<open>params\<close>
  of the model: each parameter goes to the path, to the query or to the body. The text
  that replaces a placeholder is an output of \<^verbatim>\<open>encodeURIComponent\<close>; it holds no dollar
  sign, so \<^verbatim>\<open>replace\<close> inserts it as it stands.
\<close>

fun route_params :: "node_env \<Rightarrow> string \<Rightarrow> (string \<times> json) list
    \<Rightarrow> string \<times> (string \<times> string) list \<times> (string \<times> json) list
    \<Rightarrow> string \<times> (string \<times> string) list \<times> (string \<times> json) list" where
  "route_params N m [] acc = acc"
| "route_params N m ((key, v) # rest) (resolvedPath, queryParams, bodyParams) =
     (let placeholder = ''{'' @ key @ ''}'' in
      if str_includes resolvedPath placeholder
      then route_params N m rest
             (replace_first resolvedPath placeholder (encodeURIComponent N (String_of N v)),
              queryParams, bodyParams)
      else if m = ''GET'' \<or> m = ''DELETE''
      then route_params N m rest (resolvedPath, js_set key (String_of N v) queryParams, bodyParams)
      else route_params N m rest (resolvedPath, queryParams, js_set key v bodyParams))"

text \<open>
  \<^verbatim>\<open>IaJsonClient.call\<close> of \<^verbatim>\<open>client.ts\<close>, in the order of the source: the headers
  with the authentication attached (lines 222 to 248), the credential checks (lines 250
  to 260), the request and the handling of status 429 (lines 264 to 280). A string is
  truthy when it is not empty. The value returned is the response: status, headers and
  body.
\<close>

definition truthy :: "string option \<Rightarrow> bool" where
  "truthy s = (case s of None \<Rightarrow> False | Some v \<Rightarrow> v \<noteq> [])"

definition signed_prefix :: "node_client \<Rightarrow> string" where
  "signed_prefix c =
     (case signed_key (config c) of
        None \<Rightarrow> ''X-IA-''
      | Some sk \<Rightarrow> (case header_prefix sk of None \<Rightarrow> ''X-IA-'' | Some p \<Rightarrow> p))"

definition attach_auth :: "node_env \<Rightarrow> node_client \<Rightarrow> string \<Rightarrow> (string \<times> string) list \<Rightarrow> string
    \<Rightarrow> effect list \<times> (string \<times> string) list" where
  "attach_auth N c lv headers1 bodyString =
     (case (case credentials c of
              Some cr \<Rightarrow>
                if lv \<noteq> ''public''
                then (case node_createSignedHeaders N (api_key cr) (signing_secret cr) bodyString
                             (signed_prefix c) of
                        (t, signedHeaders) \<Rightarrow> (t, array_merge headers1 signedHeaders))
                else ([], headers1)
            | None \<Rightarrow> ([], headers1)) of
        (t, headers2) \<Rightarrow>
          (case bearer_token c of
             Some tok \<Rightarrow>
               if lv = ''user_required'' \<and> tok \<noteq> []
               then (t, array_set ''Authorization'' (''Bearer '' @ tok) headers2)
               else (t, headers2)
           | None \<Rightarrow> (t, headers2)))"

definition check_credentials :: "node_client \<Rightarrow> string \<Rightarrow> string \<Rightarrow> node_error option" where
  \<open>check_credentials c lv endpointName =
     (if lv = ''protected'' \<and> credentials c = None
      then Some (AuthenticationError
                   (''Endpoint "'' @ endpointName @ ''" requires agent authentication. Call register() first.''))
      else if lv = ''user_required'' \<and> \<not> truthy (bearer_token c) \<and> credentials c = None
      then Some (AuthenticationError
                   (''Endpoint "'' @ endpointName
                    @ ''" requires user authorization. Set an access token or register first.''))
      else None)\<close>

definition send_request :: "node_env \<Rightarrow> string \<Rightarrow> http_request
    \<Rightarrow> effect list \<times> (node_error + (nat \<times> (string \<times> string) list \<times> string))" where
  \<open>send_request N endpointName request =
     (case fetch N request of
        TransportError message \<Rightarrow> ([Http request], Inl FetchFailed)
      | Response status hs body \<Rightarrow>
          if status = 429
          then ([Http request],
                Inl (RateLimitError (''Rate limited on endpoint "'' @ endpointName @ ''"'')
                       (case header_get hs ''retry-after'' of
                          None \<Rightarrow> None
                        | Some h \<Rightarrow> if h = [] then None else parseInt N h)))
          else ([Http request], Inr (status, hs, body)))\<close>

definition node_call :: "node_env \<Rightarrow> node_client \<Rightarrow> string \<Rightarrow> (string \<times> json) list
    \<Rightarrow> effect list \<times> (node_error + (nat \<times> (string \<times> string) list \<times> string))" where
  \<open>node_call N c endpointName params =
     (case map_of (endpointIndex c) endpointName of
        None \<Rightarrow>
          ([], Inl (IaJsonError (''Unknown endpoint "'' @ endpointName @ ''". Available: ''
                                 @ implode '', '' (map fst (endpointIndex c)))))
      | Some resolved \<Rightarrow>
          (let lv = level resolved;
               m = http_method (endpoint resolved)
           in case route_params N m params (path (endpoint resolved), [], []) of
                (resolvedPath, queryParams, bodyParams) \<Rightarrow>
                  (case URL_resolve N resolvedPath (base_url (api (config c))) of
                     None \<Rightarrow> ([], Inl InvalidURL)
                   | Some u0 \<Rightarrow>
                       (let u = URL_with_query N u0 queryParams;
                            headers0 = [(''Accept'', ''application/json'')];
                            hasBody = (m \<noteq> ''GET'' \<and> m \<noteq> ''DELETE'' \<and> bodyParams \<noteq> []);
                            bodyString = (if hasBody then JSON_stringify N (JObj bodyParams) else []);
                            headers1 = (if hasBody
                                        then array_set ''Content-Type'' ''application/json'' headers0
                                        else headers0)
                        in case attach_auth N c lv headers1 bodyString of
                             (t, headers3) \<Rightarrow>
                               (case check_credentials c lv endpointName of
                                  Some e \<Rightarrow> (t, Inl e)
                                | None \<Rightarrow>
                                    (case send_request N endpointName
                                            \<lparr>req_method = m, req_url = u, req_headers = headers3,
                                             req_query = [],
                                             req_body = (if hasBody then RawBody bodyString else NoBody)\<rparr> of
                                       (t', r) \<Rightarrow> (t @ t', r)))))))\<close>

section \<open>Tier groups\<close>

text \<open>
  What it is for an operation name to appear in a tier group: in the PHP client, the entry
  \<^verbatim>\<open>$this->spec['api'][$level][$name]\<close> is set; in the Node client, the group
  \<^verbatim>\<open>config.api[level]\<close> is present and has the name.
\<close>

definition tier_entry :: "client \<Rightarrow> string \<Rightarrow> string \<Rightarrow> json" where
  "tier_entry c lv nm = php_index (php_index (php_index (spec c) ''api'') lv) nm"

definition node_tier_entry :: "node_client \<Rightarrow> string \<Rightarrow> string \<Rightarrow> Endpoint option" where
  "node_tier_entry c lv nm =
     (case group_of (api (config c)) lv of None \<Rightarrow> None | Some g \<Rightarrow> map_of (rev g) nm)"

section \<open>Structural validity\<close>

text \<open>
  The conditions each port's validation stands for, stated on the decoded manifest. The
  declared major version is the part of the version string before its first dot.
\<close>

definition major_version :: "string \<Rightarrow> string" where
  "major_version v = takeWhile (\<lambda>c. c \<noteq> CHR ''.'') v"

definition php_has_group :: "json \<Rightarrow> bool" where
  "php_has_group data =
     list_ex (\<lambda>lv. php_isset (php_index (php_index data ''api'') lv))
       [''public'', ''protected'', ''user_required'']"

definition php_structurally_valid :: "json \<Rightarrow> bool" where
  "php_structurally_valid data =
     ((case php_index data ''version'' of JStr v \<Rightarrow> major_version v = ''1'' | _ \<Rightarrow> False)
      \<and> php_isset (php_index (php_index data ''site'') ''name'')
      \<and> php_isset (php_index (php_index data ''site'') ''type'')
      \<and> php_isset (php_index (php_index data ''api'') ''base_url'')
      \<and> php_has_group data)"

definition node_has_group :: "json \<Rightarrow> bool" where
  "node_has_group data =
     (case js_get data ''api'' of
        None \<Rightarrow> False
      | Some a \<Rightarrow>
          list_ex (\<lambda>lv. case js_get a lv of Some g \<Rightarrow> is_object g | None \<Rightarrow> False)
            [''public'', ''protected'', ''user_required''])"

definition node_structurally_valid :: "json \<Rightarrow> bool" where
  "node_structurally_valid data =
     (is_object data
      \<and> (case js_get data ''version'' of Some (JStr v) \<Rightarrow> semver_test v | _ \<Rightarrow> False)
      \<and> (case js_get data ''site'' of
            Some site \<Rightarrow>
              is_object site
              \<and> (case js_get site ''name'' of Some (JStr n) \<Rightarrow> n \<noteq> [] | _ \<Rightarrow> False)
              \<and> (case js_get site ''type'' of Some (JStr ty) \<Rightarrow> True | _ \<Rightarrow> False)
          | None \<Rightarrow> False)
      \<and> (case js_get data ''api'' of
            Some a \<Rightarrow>
              is_object a
              \<and> (case js_get a ''base_url'' of Some (JStr b) \<Rightarrow> starts_with b ''https://'' | _ \<Rightarrow> False)
          | None \<Rightarrow> False)
      \<and> node_has_group data)"


section \<open>Discovery outcomes\<close>

text \<open>A bare 404: a response whose status is 404.\<close>

definition is_not_found :: "http_outcome \<Rightarrow> bool" where
  "is_not_found out = (case out of Response status hs body \<Rightarrow> status = 404 | TransportError m \<Rightarrow> False)"

text \<open>
  The content types the Node port reads a document from: the \<^verbatim>\<open>content-type\<close> header,
  empty when absent, mentions \<open>json\<close> or \<open>text/plain\<close>.
\<close>

definition accepted_content_type :: "(string \<times> string) list \<Rightarrow> bool" where
  "accepted_content_type hs =
     (let contentType = (case header_get hs ''content-type'' of Some v \<Rightarrow> v | None \<Rightarrow> [])
      in str_includes contentType ''json'' \<or> str_includes contentType ''text/plain'')"

text \<open>
  The locations of the manifest, and the one whose answer discovery reads: the primary
  location, or the well-known location when the primary location answers 404.
\<close>

definition node_primary_url :: "string \<Rightarrow> string" where
  "node_primary_url domain = discovery_url (cleanDomain_of domain) ''/ia.json''"

definition node_well_known_url :: "string \<Rightarrow> string" where
  "node_well_known_url domain = discovery_url (cleanDomain_of domain) ''/.well-known/ia.json''"



section \<open>The error for a missing path parameter\<close>

definition missing_parameter :: php_error where
  "missing_parameter = IaJsonException (Some ''missing_parameter'')"

section \<open>Concrete environments\<close>

text \<open>
  A small environment on which the definitions evaluate: a fixed clock, a toy digest that
  concatenates its arguments, a network that answers 404 to everything, a JSON decoder
  that knows no document and an encoder that knows one order body. Its conversions are
  right on the strings used here: letters, digits and underscores.
\<close>

definition example_encode :: "json \<Rightarrow> string option" where
  \<open>example_encode j = (if j = JObj [(''sku'', JStr ''A1'')] then Some ''{"sku":"A1"}'' else None)\<close>

definition example_env :: php_env where
  "example_env =
     \<lparr>time = 1707753600,
      hmac_algos = [''sha256'', ''sha512''],
      hmac_digest = (\<lambda>algo data key. algo @ '':'' @ key @ '':'' @ data),
      sha256_raw = (\<lambda>s. s),
      http_send = (\<lambda>r. Response 404 [] []),
      client_http_errors = True,
      json_decode = (\<lambda>s. None),
      json_encode = example_encode,
      strval = (\<lambda>j. case j of JStr s \<Rightarrow> s | _ \<Rightarrow> []),
      intval = (\<lambda>j. case j of JInt i \<Rightarrow> i | _ \<Rightarrow> 0),
      rawurlencode = (\<lambda>s. s),
      http_build_query = (\<lambda>ps. concat (map (\<lambda>(k, v). k @ ''='' @ v @ ''&'') ps)),
      parse_url = (\<lambda>s. None)\<rparr>"


definition example_oauth :: oauth where
  "example_oauth =
     \<lparr>authorizationUrl = ''https://shop.example/oauth/authorize'',
      tokenUrl = ''https://shop.example/oauth/token'',
      clientId = ''agent-1'',
      clientSecret = [],
      pkceRequired = True,
      accessToken = Some ''tok_old'',
      refreshToken = None,
      expiresAt = Some 1707753000\<rparr>"

definition example_pool :: string where
  "example_pool = replicate 48 CHR ''r''"


definition example_spec :: json where
  "example_spec =
     JObj [(''version'', JStr ''1.0.0''),
           (''site'', JObj [(''name'', JStr ''TechStore''), (''type'', JStr ''ecommerce'')]),
           (''api'', JObj
              [(''base_url'', JStr ''https://shop.example/api''),
               (''public'', JObj
                  [(''list_items'', JObj [(''method'', JStr ''GET''), (''path'', JStr ''/items'')]),
                   (''get_item'', JObj [(''method'', JStr ''GET''), (''path'', JStr ''/items/{id}'')])]),
               (''protected'', JObj
                  [(''list_items'', JObj [(''method'', JStr ''GET''), (''path'', JStr ''/agent/items'')]),
                   (''create_order'', JObj [(''method'', JStr ''POST''), (''path'', JStr ''/orders'')])]),
               (''user_required'', JObj
                  [(''get_profile'', JObj [(''method'', JStr ''GET''), (''path'', JStr ''/me'')])])]),
           (''auth'', JObj
              [(''signed_key'', JObj [(''register_url'', JStr ''https://shop.example/ia/register''),
                                      (''algorithm'', JStr ''sha256'')])])]"

definition example_client :: client where
  "example_client =
     \<lparr>spec = example_spec, apiKey = None, secret = None, oauth = None, oauthToken = None\<rparr>"


text \<open>
  A server that answers the verification step with status 200 and a body that has an
  \<open>api_key\<close> and no \<open>secret\<close>, and a server that answers every request with status
  500 and an empty body.
\<close>

definition missing_secret_body :: string where
  \<open>missing_secret_body = ''{"api_key":"ak_live_1"}''\<close>

definition missing_secret_env :: php_env where
  "missing_secret_env =
     example_env\<lparr>http_send := (\<lambda>r. Response 200 [] missing_secret_body),
                 json_decode := (\<lambda>s. if s = missing_secret_body
                                      then Some (JObj [(''api_key'', JStr ''ak_live_1'')])
                                      else None)\<rparr>"

definition server_error_env :: php_env where
  "server_error_env = example_env\<lparr>http_send := (\<lambda>r. Response 500 [] [])\<rparr>"


text \<open>
  The same manifest as the Node port types it, a Node client and a Node environment. Its
  \<^verbatim>\<open>new URL(path, base)\<close> is the URL parser on the paths of this manifest: an absolute path
  replaces the path of the base URL, and braces are percent-encoded. Its
  \<^verbatim>\<open>JSON.stringify\<close> knows the empty object and one order body.
\<close>

definition example_config :: IaJsonConfig where
  "example_config =
     \<lparr>api = \<lparr>base_url = ''https://shop.example/api'',
             public = Some [(''list_items'', \<lparr>http_method = ''GET'', path = ''/items''\<rparr>),
                            (''get_item'', \<lparr>http_method = ''GET'', path = ''/items/{id}''\<rparr>)],
             protected = Some [(''list_items'', \<lparr>http_method = ''GET'', path = ''/agent/items''\<rparr>),
                               (''create_order'', \<lparr>http_method = ''POST'', path = ''/orders''\<rparr>)],
             user_required = Some [(''get_profile'', \<lparr>http_method = ''GET'', path = ''/me''\<rparr>)]\<rparr>,
      signed_key = Some \<lparr>register_url = ''https://shop.example/ia/register'', header_prefix = None\<rparr>\<rparr>"

definition example_node_client :: node_client where
  "example_node_client = \<lparr>config = example_config, credentials = None, bearer_token = None\<rparr>"

definition example_stringify :: "json \<Rightarrow> string" where
  \<open>example_stringify j =
     (if j = JObj [(''sku'', JStr ''A1'')] then ''{"sku":"A1"}'' else ''{}'')\<close>

definition example_node_env :: node_env where
  "example_node_env =
     \<lparr>now_seconds = 1707753600,
      hmac_sha256_hex = (\<lambda>sk payload. ''sha256:'' @ sk @ '':'' @ payload),
      fetch = (\<lambda>r. Response 200 [] ''{}''),
      JSON_parse = (\<lambda>s. None),
      JSON_stringify = example_stringify,
      String_of = (\<lambda>j. case j of JStr s \<Rightarrow> s | _ \<Rightarrow> []),
      encodeURIComponent = (\<lambda>s. s),
      URL_resolve = (\<lambda>p b. if b = ''https://shop.example/api''
                             then map_of [(''/items'', ''https://shop.example/items''),
                                          (''/items/{id}'', ''https://shop.example/items/%7Bid%7D''),
                                          (''/agent/items'', ''https://shop.example/agent/items''),
                                          (''/orders'', ''https://shop.example/orders''),
                                          (''/me'', ''https://shop.example/me'')] p
                             else None),
      URL_with_query = (\<lambda>u q. if q = [] then u
                                else u @ ''?'' @ implode ''&'' (map (\<lambda>(k, v). k @ ''='' @ v) q)),
      parseInt = (\<lambda>s. None)\<rparr>"


text \<open>
  Servers for discovery. \<open>manifest_env\<close> serves the example manifest at the primary
  location; \<open>lax_env\<close> serves a manifest whose version is \<open>1\<close> and whose base URL is
  plain HTTP; \<open>multiple_choices_env\<close> serves the example manifest with status 300.
\<close>

definition manifest_body :: string where
  \<open>manifest_body = ''{"version":"1.0.0","site":{"name":"TechStore","type":"ecommerce"},"api":{"base_url":"https://shop.example/api","public":{"list_items":{"method":"GET","path":"/items"},"get_item":{"method":"GET","path":"/items/{id}"}},"protected":{"list_items":{"method":"GET","path":"/agent/items"},"create_order":{"method":"POST","path":"/orders"}},"user_required":{"get_profile":{"method":"GET","path":"/me"}}},"auth":{"signed_key":{"register_url":"https://shop.example/ia/register","algorithm":"sha256"}}}''\<close>

definition manifest_env :: php_env where
  "manifest_env =
     example_env\<lparr>http_send := (\<lambda>r. Response 200 [(''Content-Type'', ''application/json'')] manifest_body),
                 json_decode := (\<lambda>s. if s = manifest_body then Some example_spec else None)\<rparr>"




definition multiple_choices_env :: php_env where
  "multiple_choices_env =
     manifest_env\<lparr>http_send := (\<lambda>r. Response 300 [(''Content-Type'', ''application/json'')] manifest_body)\<rparr>"



text \<open>
  Clients that hold agent credentials and no OAuth token, and clients that hold an OAuth
  token and no agent credentials, one per port.
\<close>

definition registered_node_client :: node_client where
  "registered_node_client =
     example_node_client\<lparr>credentials := Some \<lparr>api_key = ''ak_live_1'', signing_secret = ''sec_1''\<rparr>\<rparr>"

definition registered_client :: client where
  "registered_client = example_client\<lparr>apiKey := Some ''ak_live_1'', secret := Some ''sec_1''\<rparr>"

definition authorized_node_client :: node_client where
  "authorized_node_client = example_node_client\<lparr>bearer_token := Some ''tok_1''\<rparr>"

definition authorized_client :: client where
  "authorized_client = example_client\<lparr>oauthToken := Some ''tok_1''\<rparr>"









definition padded_body :: string where
  "padded_body = manifest_body @ replicate 1048576 CHR '' ''"

definition padded_node_env :: node_env where
  "padded_node_env =
     example_node_env\<lparr>fetch := (\<lambda>r. Response 200 [(''Content-Type'', ''application/json'')] padded_body),
                      JSON_parse := (\<lambda>s. if s = padded_body then Some example_spec else None)\<rparr>"

text \<open>A server whose document at the primary location is one byte over the size ceiling.\<close>

definition oversize_env :: php_env where
  "oversize_env = example_env\<lparr>http_send := (\<lambda>r. Response 200 [] (replicate 1048577 CHR ''x''))\<rparr>"


section \<open>Theorems\<close>

subsection \<open>Signer\<close>

text \<open>
  C1. Round trip: for every secret \<open>sk\<close>, body, algorithm among sha256 and sha512 (both known to
  the hash extension), window \<open>maxAgeSeconds\<close> and timestamp \<open>ts\<close> with
  \<open>|now - ts| \<le> maxAgeSeconds\<close> at verification time, signing succeeds and \<open>verify\<close>
  returns true on the signature \<open>sign\<close> produced.
\<close>

theorem signer_round_trip:
  assumes "algorithm \<in> {''sha256'', ''sha512''}"
    and "{''sha256'', ''sha512''} \<subseteq> set (hmac_algos E)"
    and "\<bar>time E - ts\<bar> \<le> maxAgeSeconds"
  shows "\<exists>sig. snd (sign E sk ts body algorithm) = Inr sig
          \<and> snd (verify E sk sig ts body algorithm maxAgeSeconds) = Inr True"
proof -
  from assms(1,2) have known: "algorithm \<in> set (hmac_algos E)"
    by auto
  let ?sig = "hmac_digest E algorithm (buildSigningString ts body) sk"
  have s: "sign E sk ts body algorithm =
             ([Hmac algorithm (buildSigningString ts body) sk], Inr ?sig)"
    using known by (simp add: sign_def hash_hmac_def Let_def)
  have fresh: "\<not> \<bar>time E - ts\<bar> > maxAgeSeconds"
    using assms(3) by simp
  have "snd (verify E sk ?sig ts body algorithm maxAgeSeconds) = Inr True"
    unfolding verify_def Let_def using fresh by (simp add: s hash_equals_def)
  with s show ?thesis
    by simp
qed

theorem signer_round_trip_witness:
  "''sha256'' \<in> {''sha256'', ''sha512''}
   \<and> {''sha256'', ''sha512''} \<subseteq> set (hmac_algos example_env)
   \<and> \<bar>time example_env - 1707753590\<bar> \<le> 60
   \<and> (\<exists>sig. snd (sign example_env ''test_secret_key_123'' 1707753590 ''{}'' ''sha256'') = Inr sig
          \<and> snd (verify example_env ''test_secret_key_123'' sig 1707753590 ''{}'' ''sha256'' 60) = Inr True)"
proof -
  have a: "''sha256'' \<in> {''sha256'', ''sha512''}"
    by simp
  have b: "{''sha256'', ''sha512''} \<subseteq> set (hmac_algos example_env)"
    by (simp add: example_env_def)
  have c: "\<bar>time example_env - 1707753590\<bar> \<le> 60"
    by (simp add: example_env_def)
  from signer_round_trip [OF a b c] a b c show ?thesis
    by blast
qed



subsection \<open>OAuth: PKCE\<close>

lemma of_char_lt_256: "of_char c < (256::nat)"
proof -
  have "(of_char c :: nat) mod 256 < 256" by simp
  then show ?thesis by (simp only: of_char_mod_256)
qed

lemma strtr_append: "strtr (x @ y) f t = strtr x f t @ strtr y f t"
  by (simp add: strtr_def)

lemma strtr_Cons: "strtr (c # y) f t = strtr [c] f t @ strtr y f t"
  by (simp add: strtr_def)

lemma strtr_nth: "n < length s \<Longrightarrow> strtr [s ! n] f t = [strtr s f t ! n]"
  by (simp add: strtr_def)

lemma strtr_base64_chars: "strtr base64_chars ''+/'' ''-_'' = base64url_chars"
  by (simp add: strtr_def base64_chars_def base64url_chars_def)

lemma length_base64_chars: "length base64_chars = 64"
  by (simp add: base64_chars_def)

lemma strtr_b64: "n < 64 \<Longrightarrow> strtr [b64 n] ''+/'' ''-_'' = [b64url n]"
  unfolding b64_def b64url_def
  using strtr_nth [of n base64_chars "''+/''" "''-_''"]
  by (simp add: length_base64_chars strtr_base64_chars)

lemma strtr_b64_Cons: "n < 64 \<Longrightarrow> strtr (b64 n # y) ''+/'' ''-_'' = b64url n # strtr y ''+/'' ''-_''"
  using strtr_Cons [of "b64 n" y] by (simp add: strtr_b64)

lemma strtr_pad_Cons: "strtr (CHR ''='' # y) ''+/'' ''-_'' = CHR ''='' # strtr y ''+/'' ''-_''"
  by (simp add: strtr_def)

lemma strtr_Nil: "strtr [] f t = []"
  by (simp add: strtr_def)

lemma length_base64url_chars: "length base64url_chars = 64"
  by (simp add: base64url_chars_def)

lemma b64url_mem: "n < 64 \<Longrightarrow> b64url n \<in> set base64url_chars"
  unfolding b64url_def by (rule nth_mem) (simp add: length_base64url_chars)

lemma eq_notin_url: "CHR ''='' \<notin> set base64url_chars"
  by (simp add: base64url_chars_def)

lemma url_subset_unreserved: "set base64url_chars \<subseteq> set unreserved_chars"
  by (simp add: base64url_chars_def unreserved_chars_def)

lemma idx:
  "of_char a div 4 < (64::nat)"
  "(of_char a mod 4) * 16 + of_char b div 16 < (64::nat)"
  "(of_char b mod 16) * 4 + of_char c div 64 < (64::nat)"
  "of_char c mod 64 < (64::nat)"
  "(of_char b mod 16) * 4 < (64::nat)"
  "(of_char a mod 4) * 16 < (64::nat)"
proof -
  have x: "x div 4 < 64" "x div 16 < 16" "x div 64 < 4" if "x < 256" for x :: nat
    using that by arith+
  have y: "x mod 4 * 16 \<le> 48" "x mod 16 * 4 \<le> 60" for x :: nat
    by arith+
  show "of_char a div 4 < (64::nat)"
    using x(1) [OF of_char_lt_256 [of a]] .
  show "(of_char a mod 4) * 16 + of_char b div 16 < (64::nat)"
    using x(2) [OF of_char_lt_256 [of b]] y(1) [of "of_char a"] by linarith
  show "(of_char b mod 16) * 4 + of_char c div 64 < (64::nat)"
    using x(3) [OF of_char_lt_256 [of c]] y(2) [of "of_char b"] by linarith
  show "of_char c mod 64 < (64::nat)"
    by simp
  show "(of_char b mod 16) * 4 < (64::nat)"
    using y(2) [of "of_char b"] by linarith
  show "(of_char a mod 4) * 16 < (64::nat)"
    using y(1) [of "of_char a"] by linarith
qed

lemma set_BASE64URL: "set (BASE64URL s) \<subseteq> set base64url_chars"
  by (induction s rule: BASE64URL.induct) (simp_all add: b64url_mem idx)

lemma length_BASE64URL: "length (BASE64URL s) = (4 * length s + 2) div 3"
  by (induction s rule: BASE64URL.induct) simp_all

lemma rtrim_append_keep:
  assumes "x \<noteq> []" and "last x \<notin> set chars"
  shows "rtrim (x @ y) chars = x @ rtrim y chars"
proof -
  have h: "dropWhile (\<lambda>c. c \<in> set chars) (rev x) = rev x"
    using assms by (cases "rev x") (auto simp: hd_rev)
  show ?thesis
    using h by (simp add: rtrim_def dropWhile_append)
qed

lemma php_base64url: "rtrim (strtr (base64_encode s) ''+/'' ''-_'') ''='' = BASE64URL s"
proof (induction s rule: BASE64URL.induct)
  case (1 a b c rest)
  let ?x = "[b64url (of_char a div 4),
      b64url ((of_char a mod 4) * 16 + of_char b div 16),
      b64url ((of_char b mod 16) * 4 + of_char c div 64),
      b64url (of_char c mod 64)]"
  have "last ?x \<in> set base64url_chars"
    by (simp add: b64url_mem idx)
  then have l: "last ?x \<notin> set ''=''"
    using eq_notin_url by auto
  have "strtr (base64_encode (a # b # c # rest)) ''+/'' ''-_''
          = ?x @ strtr (base64_encode rest) ''+/'' ''-_''"
    by (simp add: strtr_b64_Cons idx)
  then have "rtrim (strtr (base64_encode (a # b # c # rest)) ''+/'' ''-_'') ''=''
          = ?x @ rtrim (strtr (base64_encode rest) ''+/'' ''-_'') ''=''"
    using rtrim_append_keep [of ?x "''=''"] l by simp
  with 1 show ?case by simp
next
  case (2 a b)
  let ?x = "[b64url (of_char a div 4),
      b64url ((of_char a mod 4) * 16 + of_char b div 16),
      b64url ((of_char b mod 16) * 4)]"
  have "last ?x \<in> set base64url_chars"
    by (simp add: b64url_mem idx)
  then have l: "last ?x \<notin> set ''=''"
    using eq_notin_url by auto
  have "strtr (base64_encode [a, b]) ''+/'' ''-_'' = ?x @ ''=''"
    by (simp add: strtr_b64_Cons strtr_pad_Cons strtr_Nil idx)
  then have "rtrim (strtr (base64_encode [a, b]) ''+/'' ''-_'') ''='' = ?x @ rtrim ''='' ''=''"
    using rtrim_append_keep [of ?x "''=''"] l by simp
  then show ?case by (simp add: rtrim_def)
next
  case (3 a)
  let ?x = "[b64url (of_char a div 4), b64url ((of_char a mod 4) * 16)]"
  have "last ?x \<in> set base64url_chars"
    by (simp add: b64url_mem idx)
  then have l: "last ?x \<notin> set ''=''"
    using eq_notin_url by auto
  have "strtr (base64_encode [a]) ''+/'' ''-_'' = ?x @ ''==''"
    by (simp add: strtr_b64_Cons strtr_pad_Cons strtr_Nil idx)
  then have "rtrim (strtr (base64_encode [a]) ''+/'' ''-_'') ''='' = ?x @ rtrim ''=='' ''=''"
    using rtrim_append_keep [of ?x "''=''"] l by simp
  then show ?case by (simp add: rtrim_def)
next
  case 4
  show ?case by (simp add: rtrim_def strtr_def)
qed

text \<open>
  C8. PKCE generation: when PKCE is required and the random source delivers, an
  authorization attempt draws 32 fresh bytes from the random source, its code verifier is
  their unpadded base64url encoding, the verifier's length lies within [43,128] (it is 43),
  each of its characters is an unreserved character of RFC 7636, and the request carries
  \<open>code_challenge = BASE64URL(SHA256(verifier))\<close> with \<open>code_challenge_method = S256\<close>.
  That the source is cryptographically secure is a property of \<^verbatim>\<open>random_bytes\<close>, outside
  this model.
\<close>

theorem pkce_generation:
  assumes "pkceRequired oa"
    and "length pool \<ge> (if state = [] \<or> state = ''0'' then 16 else 0) + 32"
  shows "\<exists>params v pool' bytes.
      authorizationParams oa E pool redirectUri scopes state = Inr (params, Some v, pool')
    \<and> getAuthorizationUrl oa E pool redirectUri scopes state
        = Inr (\<lparr>url = authorizationUrl oa @ ''?'' @ http_build_query E params,
                 code_verifier = Some v\<rparr>, pool')
    \<and> length bytes = 32
    \<and> bytes = take 32 (drop (if state = [] \<or> state = ''0'' then 16 else 0) pool)
    \<and> v = BASE64URL bytes
    \<and> 43 \<le> length v \<and> length v \<le> 128
    \<and> (\<forall>c \<in> set v. c \<in> set unreserved_chars)
    \<and> map_of params ''code_challenge'' = Some (BASE64URL (sha256_raw E v))
    \<and> map_of params ''code_challenge_method'' = Some ''S256''"
proof -
  define k :: nat where "k = (if state = [] \<or> state = ''0'' then 16 else 0)"
  define bytes where "bytes = take 32 (drop k pool)"
  define v where "v = BASE64URL bytes"
  have lb: "length bytes = 32"
    using assms(2) by (auto simp: bytes_def k_def)
  have lv: "length v = 43"
    by (simp add: v_def length_BASE64URL lb)
  have sv: "\<forall>c \<in> set v. c \<in> set unreserved_chars"
    using set_BASE64URL [of bytes] url_subset_unreserved by (auto simp: v_def)
  have gv: "generateCodeVerifier (drop k pool) = Inr (v, drop 32 (drop k pool))"
    using assms(2) by (auto simp: generateCodeVerifier_def random_bytes_def php_base64url v_def bytes_def k_def)
  have gc: "generateCodeChallenge E v = BASE64URL (sha256_raw E v)"
    by (simp add: generateCodeChallenge_def php_base64url)
  define st where "st = (if state = [] \<or> state = ''0'' then bin2hex (take 16 pool) else state)"
  define params where "params = [(''response_type'', ''code''),
                         (''client_id'', clientId oa),
                         (''redirect_uri'', redirectUri),
                         (''state'', st)]
                        @ (if scopes \<noteq> [] then [(''scope'', implode '' '' scopes)] else [])
                        @ [(''code_challenge'', BASE64URL (sha256_raw E v)),
                           (''code_challenge_method'', ''S256'')]"
  have ap: "authorizationParams oa E pool redirectUri scopes state
              = Inr (params, Some v, drop 32 (drop k pool))"
    using assms gv gc
    by (auto simp: authorizationParams_def random_bytes_def Let_def params_def st_def k_def)
  have gu: "getAuthorizationUrl oa E pool redirectUri scopes state
        = Inr (\<lparr>url = authorizationUrl oa @ ''?'' @ http_build_query E params,
                 code_verifier = Some v\<rparr>, drop 32 (drop k pool))"
    by (simp add: getAuthorizationUrl_def ap)
  have m1: "map_of params ''code_challenge'' = Some (BASE64URL (sha256_raw E v))"
    by (simp add: params_def)
  have m2: "map_of params ''code_challenge_method'' = Some ''S256''"
    by (simp add: params_def)
  from ap gu lb lv sv m1 m2 show ?thesis
    unfolding v_def bytes_def k_def by (intro exI conjI) (assumption | simp)+
qed

theorem pkce_generation_witness:
  "pkceRequired example_oauth \<and> length example_pool \<ge> 48
   \<and> (\<exists>params v pool'.
        authorizationParams example_oauth example_env example_pool ''https://agent.example/cb'' [] ''xyz''
          = Inr (params, Some v, pool')
      \<and> v = BASE64URL (take 32 example_pool)
      \<and> 43 \<le> length v \<and> length v \<le> 128
      \<and> (\<forall>c \<in> set v. c \<in> set unreserved_chars)
      \<and> map_of params ''code_challenge'' = Some (BASE64URL (sha256_raw example_env v))
      \<and> map_of params ''code_challenge_method'' = Some ''S256'')"
proof -
  have a: "pkceRequired example_oauth"
    by (simp add: example_oauth_def)
  have b: "length example_pool \<ge> 48"
    by (simp add: example_pool_def)
  have c: "length example_pool \<ge> (if ''xyz'' = [] \<or> ''xyz'' = ''0'' then 16 else 0) + 32"
    by (simp add: example_pool_def)
  from pkce_generation [OF a c, of example_env "''https://agent.example/cb''" "[]"] a b
  show ?thesis
    by auto
qed

subsection \<open>OAuth: token retrieval\<close>

lemma requestToken_not_missing:
  "fst (snd (requestToken E oa ps)) \<noteq> Inl missingOAuthToken"
  by (auto simp: requestToken_def guzzle_request_def missingOAuthToken_def Let_def
      split: http_outcome.splits json.splits prod.splits guzzle_result.splits if_splits)

text \<open>
  C10. Token retrieval: a stored access token that is expired (\<open>now \<ge> expiresAt - 30\<close>)
  with no refresh token held is returned as it is, with no error, no request and no change
  of state; \<open>getAccessToken\<close> raises \<open>MissingOAuthToken\<close> exactly when no access token is
  stored; a token whose \<open>expiresAt\<close> is unset is never expired, and one whose
  \<open>expiresAt\<close> is set is expired exactly when \<open>now \<ge> expiresAt - 30\<close>.
\<close>

theorem token_retrieval_edge_cases:
  "(accessToken oa = Some tok \<and> isExpired E oa \<and> refreshToken oa = None
      \<longrightarrow> getAccessToken E oa = ([], Inr tok, oa))
   \<and> (fst (snd (getAccessToken E oa)) = Inl missingOAuthToken \<longleftrightarrow> accessToken oa = None)
   \<and> (expiresAt oa = None \<longrightarrow> \<not> isExpired E oa)
   \<and> (\<forall>e. expiresAt oa = Some e \<longrightarrow> isExpired E oa = (time E \<ge> e - 30))"
proof -
  have a: "accessToken oa = Some tok \<and> isExpired E oa \<and> refreshToken oa = None
      \<longrightarrow> getAccessToken E oa = ([], Inr tok, oa)"
    by (simp add: getAccessToken_def)
  have b1: "accessToken oa = None \<Longrightarrow> fst (snd (getAccessToken E oa)) = Inl missingOAuthToken"
    by (simp add: getAccessToken_def)
  have b2: "fst (snd (getAccessToken E oa)) \<noteq> Inl missingOAuthToken"
    if "accessToken oa = Some t0" for t0
  proof (cases "isExpired E oa \<and> refreshToken oa \<noteq> None")
    case False
    with that show ?thesis
      by (auto simp add: getAccessToken_def)
  next
    case True
    then obtain r where r: "refreshToken oa = Some r"
      by auto
    have "refreshAccessToken E oa None = requestToken E oa
            ([(''grant_type'', ''refresh_token''),
              (''refresh_token'', r),
              (''client_id'', clientId oa)]
             @ (if clientSecret oa \<noteq> [] then [(''client_secret'', clientSecret oa)] else []))"
      by (simp add: refreshAccessToken_def r)
    then have "fst (snd (refreshAccessToken E oa None)) \<noteq> Inl missingOAuthToken"
      by (simp only: requestToken_not_missing not_False_eq_True)
    with that True show ?thesis
      by (auto simp add: getAccessToken_def missingOAuthToken_def
          split: prod.splits sum.splits option.splits)
  qed
  have c: "expiresAt oa = None \<longrightarrow> \<not> isExpired E oa"
    by (simp add: isExpired_def)
  have d: "\<forall>e. expiresAt oa = Some e \<longrightarrow> isExpired E oa = (time E \<ge> e - 30)"
    by (simp add: isExpired_def)
  from a b1 b2 c d show ?thesis
    by (cases "accessToken oa") auto
qed

theorem token_retrieval_edge_cases_witness:
  "accessToken example_oauth = Some ''tok_old''
   \<and> isExpired example_env example_oauth
   \<and> refreshToken example_oauth = None
   \<and> getAccessToken example_env example_oauth = ([], Inr ''tok_old'', example_oauth)
   \<and> expiresAt (example_oauth\<lparr>expiresAt := None\<rparr>) = None
   \<and> \<not> isExpired example_env (example_oauth\<lparr>expiresAt := None\<rparr>)
   \<and> fst (snd (getAccessToken example_env (example_oauth\<lparr>accessToken := None\<rparr>)))
       = Inl missingOAuthToken"
proof -
  have a: "accessToken example_oauth = Some ''tok_old''"
    by (simp add: example_oauth_def)
  have b: "isExpired example_env example_oauth"
    by (simp add: isExpired_def example_oauth_def example_env_def)
  have c: "refreshToken example_oauth = None"
    by (simp add: example_oauth_def)
  have d: "expiresAt (example_oauth\<lparr>expiresAt := None\<rparr>) = None"
    by simp
  have e: "accessToken (example_oauth\<lparr>accessToken := None\<rparr>) = None"
    by simp
  from token_retrieval_edge_cases [of example_oauth "''tok_old''" example_env]
    token_retrieval_edge_cases [of "example_oauth\<lparr>expiresAt := None\<rparr>" "''tok_old''" example_env]
    token_retrieval_edge_cases [of "example_oauth\<lparr>accessToken := None\<rparr>" "''tok_old''" example_env]
    a b c d e
  show ?thesis
    by blast
qed

subsection \<open>Registration\<close>

lemma Register_verify_trace: "fst (Register_verify E u code) = [Http (verification_request u code)]"
  by (simp add: Register_verify_def guzzle_request_def Let_def split: http_outcome.splits)

lemma Register_verify_ok:
  assumes "Register_verify E u code = (t, Inr creds)"
  shows "\<exists>st hs raw. http_send E (verification_request u code) = Response st hs raw \<and> st < 400
           \<and> creds = json_decode_or_null E raw
           \<and> \<not> php_empty (php_index creds ''api_key'') \<and> \<not> php_empty (php_index creds ''secret'')"
  using assms
  by (auto simp: Register_verify_def guzzle_request_def Let_def split: http_outcome.splits if_splits)

text \<open>
  C9. The manifest declares \<open>signed_key\<close> and the verification URL is the one supplied
  or the one derived from \<open>register_url\<close>. A successful response to the verification
  request is one with a status below 400. When such a response lacks a non-empty
  \<open>api_key\<close> or a non-empty \<open>secret\<close> in its decoded body (absent, null and the empty
  string are all empty for \<^verbatim>\<open>empty()\<close>), \<open>verify\<close> fails with \<open>invalid_response\<close>
  and the client is unchanged. Whenever \<open>verify\<close> fails, for whatever reason, the client
  is unchanged. Credentials are stored only after a response with a status below 400 whose
  body holds both fields as non-empty strings, and they are the ones of that body.
\<close>

theorem registration_verification_atomicity:
  "(getSignedKeyConfig c = Inr cfg \<and> verification_url E cfg vu = Inr u
      \<and> http_send E (verification_request u code) = Response st hs raw \<and> st < 400
      \<and> (php_empty (php_index (json_decode_or_null E raw) ''api_key'')
           \<or> php_empty (php_index (json_decode_or_null E raw) ''secret''))
      \<longrightarrow> IaJsonClient_verify E c code vu
            = ([Http (verification_request u code)], Inl (IaJsonException (Some ''invalid_response'')), c))
   \<and> (\<forall>e. fst (snd (IaJsonClient_verify E c code vu)) = Inl e
          \<longrightarrow> snd (snd (IaJsonClient_verify E c code vu)) = c)
   \<and> (\<forall>creds. fst (snd (IaJsonClient_verify E c code vu)) = Inr creds
          \<longrightarrow> (\<exists>cfg' u' st' hs' raw' k s.
                 getSignedKeyConfig c = Inr cfg' \<and> verification_url E cfg' vu = Inr u'
               \<and> http_send E (verification_request u' code) = Response st' hs' raw' \<and> st' < 400
               \<and> creds = json_decode_or_null E raw'
               \<and> php_index creds ''api_key'' = JStr k \<and> k \<noteq> []
               \<and> php_index creds ''secret'' = JStr s \<and> s \<noteq> []
               \<and> snd (snd (IaJsonClient_verify E c code vu)) = c\<lparr>apiKey := Some k, secret := Some s\<rparr>))"
proof (intro conjI)
  show "getSignedKeyConfig c = Inr cfg \<and> verification_url E cfg vu = Inr u
      \<and> http_send E (verification_request u code) = Response st hs raw \<and> st < 400
      \<and> (php_empty (php_index (json_decode_or_null E raw) ''api_key'')
           \<or> php_empty (php_index (json_decode_or_null E raw) ''secret''))
      \<longrightarrow> IaJsonClient_verify E c code vu
            = ([Http (verification_request u code)], Inl (IaJsonException (Some ''invalid_response'')), c)"
    by (auto simp: IaJsonClient_verify_def Register_verify_def guzzle_request_def Let_def)
  show "\<forall>e. fst (snd (IaJsonClient_verify E c code vu)) = Inl e
          \<longrightarrow> snd (snd (IaJsonClient_verify E c code vu)) = c"
    by (auto simp: IaJsonClient_verify_def split: sum.splits prod.splits)
  show "\<forall>creds. fst (snd (IaJsonClient_verify E c code vu)) = Inr creds
          \<longrightarrow> (\<exists>cfg' u' st' hs' raw' k s.
                 getSignedKeyConfig c = Inr cfg' \<and> verification_url E cfg' vu = Inr u'
               \<and> http_send E (verification_request u' code) = Response st' hs' raw' \<and> st' < 400
               \<and> creds = json_decode_or_null E raw'
               \<and> php_index creds ''api_key'' = JStr k \<and> k \<noteq> []
               \<and> php_index creds ''secret'' = JStr s \<and> s \<noteq> []
               \<and> snd (snd (IaJsonClient_verify E c code vu)) = c\<lparr>apiKey := Some k, secret := Some s\<rparr>)"
  proof (intro allI impI)
    fix creds
    assume ok: "fst (snd (IaJsonClient_verify E c code vu)) = Inr creds"
    then obtain cfg' u' t c' where cf: "getSignedKeyConfig c = Inr cfg'"
      and vu: "verification_url E cfg' vu = Inr u'"
      and rv: "Register_verify E u' code = (t, Inr creds)"
      and sc: "setCredentials c (php_index creds ''api_key'') (php_index creds ''secret'') = Inr c'"
      and res: "snd (snd (IaJsonClient_verify E c code vu)) = c'"
      by (auto simp: IaJsonClient_verify_def split: sum.splits prod.splits)
    from sc obtain k s where ks: "php_index creds ''api_key'' = JStr k" "php_index creds ''secret'' = JStr s"
      and c': "c' = c\<lparr>apiKey := Some k, secret := Some s\<rparr>"
      by (auto simp: setCredentials_def split: json.splits)
    from Register_verify_ok [OF rv] obtain st' hs' raw' where
      r: "http_send E (verification_request u' code) = Response st' hs' raw'" "st' < 400"
         "creds = json_decode_or_null E raw'"
         "\<not> php_empty (php_index creds ''api_key'')" "\<not> php_empty (php_index creds ''secret'')"
      by blast
    from r(4,5) ks have ne: "k \<noteq> []" "s \<noteq> []"
      by auto
    show "\<exists>cfg' u' st' hs' raw' k s.
                 getSignedKeyConfig c = Inr cfg' \<and> verification_url E cfg' vu = Inr u'
               \<and> http_send E (verification_request u' code) = Response st' hs' raw' \<and> st' < 400
               \<and> creds = json_decode_or_null E raw'
               \<and> php_index creds ''api_key'' = JStr k \<and> k \<noteq> []
               \<and> php_index creds ''secret'' = JStr s \<and> s \<noteq> []
               \<and> snd (snd (IaJsonClient_verify E c code vu)) = c\<lparr>apiKey := Some k, secret := Some s\<rparr>"
      using cf vu r(1,2,3) ks ne res c' by blast
  qed
qed

theorem registration_verification_atomicity_witness:
  "getSignedKeyConfig example_client
     = Inr (JObj [(''register_url'', JStr ''https://shop.example/ia/register''),
                  (''algorithm'', JStr ''sha256'')])
   \<and> http_send missing_secret_env (verification_request ''https://shop.example/ia/verify'' ''vc_123'')
       = Response 200 [] missing_secret_body
   \<and> php_empty (php_index (json_decode_or_null missing_secret_env missing_secret_body) ''secret'')
   \<and> IaJsonClient_verify missing_secret_env example_client ''vc_123'' (Some ''https://shop.example/ia/verify'')
       = ([Http (verification_request ''https://shop.example/ia/verify'' ''vc_123'')],
          Inl (IaJsonException (Some ''invalid_response'')), example_client)"
proof -
  have a: "getSignedKeyConfig example_client
     = Inr (JObj [(''register_url'', JStr ''https://shop.example/ia/register''),
                  (''algorithm'', JStr ''sha256'')])"
    by (simp add: getSignedKeyConfig_def example_client_def example_spec_def php_index_def obj_get_def)
  have b: "http_send missing_secret_env (verification_request ''https://shop.example/ia/verify'' ''vc_123'')
       = Response 200 [] missing_secret_body"
    by (simp add: missing_secret_env_def)
  have c: "php_empty (php_index (json_decode_or_null missing_secret_env missing_secret_body) ''secret'')"
    by (simp add: missing_secret_env_def json_decode_or_null_def php_index_def obj_get_def)
  have d: "(200::nat) < 400"
    by simp
  have e: "verification_url missing_secret_env
             (JObj [(''register_url'', JStr ''https://shop.example/ia/register''),
                    (''algorithm'', JStr ''sha256'')])
             (Some ''https://shop.example/ia/verify'') = Inr ''https://shop.example/ia/verify''"
    by (simp add: verification_url_def)
  from registration_verification_atomicity
         [of example_client
             "JObj [(''register_url'', JStr ''https://shop.example/ia/register''),
                    (''algorithm'', JStr ''sha256'')]"
             missing_secret_env "Some ''https://shop.example/ia/verify''"
             "''https://shop.example/ia/verify''" "''vc_123''" 200 "[]" missing_secret_body,
          THEN conjunct1]
       a b c d e
  show ?thesis
    by simp
qed

subsection \<open>Endpoint resolution\<close>

lemma map_of_array_set: "map_of (array_set k v al) k' = (if k' = k then Some v else map_of al k')"
  by (induction al) auto

lemma map_of_index_fold:
  "map_of (fold (\<lambda>(nm, ep) idx. array_set nm (mk nm ep) idx) g idx0) k
     = (case map_of (rev g) k of Some ep \<Rightarrow> Some (mk k ep) | None \<Rightarrow> map_of idx0 k)"
proof (induction g arbitrary: idx0)
  case Nil
  show ?case by simp
next
  case (Cons x g)
  obtain nm ep where x: "x = (nm, ep)" by (cases x)
  show ?case
    by (simp add: Cons x map_of_array_set map_add_def split: option.splits)
qed

lemma php_index_default: "php_index (case x of JNull \<Rightarrow> JArr [] | g \<Rightarrow> g) nm = php_index x nm"
  by (cases x) (simp_all add: php_index_def)

lemma resolveEndpoint_unfold:
  "resolveEndpoint c nm =
     (if php_isset (tier_entry c ''public'' nm)
      then (if is_array (tier_entry c ''public'' nm) then Inr (''public'', tier_entry c ''public'' nm) else Inl TypeError)
      else if php_isset (tier_entry c ''protected'' nm)
      then (if is_array (tier_entry c ''protected'' nm) then Inr (''protected'', tier_entry c ''protected'' nm) else Inl TypeError)
      else if php_isset (tier_entry c ''user_required'' nm)
      then (if is_array (tier_entry c ''user_required'' nm) then Inr (''user_required'', tier_entry c ''user_required'' nm) else Inl TypeError)
      else Inl (IaJsonException (Some ''endpoint_not_found'')))"
  by (simp add: resolveEndpoint_def levels_def tier_entry_def php_index_default Let_def)

lemma getEndpoint_unfold:
  "getEndpoint c nm =
     (case node_tier_entry c ''user_required'' nm of
        Some ep \<Rightarrow> Some \<lparr>name = nm, level = ''user_required'', endpoint = ep\<rparr>
      | None \<Rightarrow>
          (case node_tier_entry c ''protected'' nm of
             Some ep \<Rightarrow> Some \<lparr>name = nm, level = ''protected'', endpoint = ep\<rparr>
           | None \<Rightarrow>
               (case node_tier_entry c ''public'' nm of
                  Some ep \<Rightarrow> Some \<lparr>name = nm, level = ''public'', endpoint = ep\<rparr>
                | None \<Rightarrow> None)))"
  by (simp add: getEndpoint_def endpointIndex_def buildEndpointIndex_def node_tier_entry_def
      map_of_index_fold [where mk = "\<lambda>nm ep. \<lparr>name = nm, level = lv, endpoint = ep\<rparr>" for lv]
      split: option.splits)

text \<open>
  C6, as the code has it. Both ports resolve a name that appears in more than one tier
  group deterministically, each with its own policy. The PHP \<open>resolveEndpoint\<close>, through
  which \<open>call\<close> resolves, returns the entry of the earliest tier in the order public,
  protected, user_required. The Node endpoint index, through which \<open>getEndpoint\<close> and
  \<open>node_call\<close> resolve, returns the entry of the latest tier in that order.
\<close>

theorem collision_policy:
  "(php_isset (tier_entry c ''public'' nm) \<and> is_array (tier_entry c ''public'' nm)
      \<longrightarrow> resolveEndpoint c nm = Inr (''public'', tier_entry c ''public'' nm))
   \<and> (\<not> php_isset (tier_entry c ''public'' nm)
        \<and> php_isset (tier_entry c ''protected'' nm) \<and> is_array (tier_entry c ''protected'' nm)
      \<longrightarrow> resolveEndpoint c nm = Inr (''protected'', tier_entry c ''protected'' nm))
   \<and> (\<not> php_isset (tier_entry c ''public'' nm) \<and> \<not> php_isset (tier_entry c ''protected'' nm)
        \<and> php_isset (tier_entry c ''user_required'' nm) \<and> is_array (tier_entry c ''user_required'' nm)
      \<longrightarrow> resolveEndpoint c nm = Inr (''user_required'', tier_entry c ''user_required'' nm))
   \<and> (node_tier_entry nc ''user_required'' nm = Some ep
      \<longrightarrow> getEndpoint nc nm = Some \<lparr>name = nm, level = ''user_required'', endpoint = ep\<rparr>)
   \<and> (node_tier_entry nc ''user_required'' nm = None \<and> node_tier_entry nc ''protected'' nm = Some ep
      \<longrightarrow> getEndpoint nc nm = Some \<lparr>name = nm, level = ''protected'', endpoint = ep\<rparr>)
   \<and> (node_tier_entry nc ''user_required'' nm = None \<and> node_tier_entry nc ''protected'' nm = None
        \<and> node_tier_entry nc ''public'' nm = Some ep
      \<longrightarrow> getEndpoint nc nm = Some \<lparr>name = nm, level = ''public'', endpoint = ep\<rparr>)"
  by (simp add: resolveEndpoint_unfold getEndpoint_unfold)

theorem collision_policy_witness:
  "php_isset (tier_entry example_client ''public'' ''list_items'')
   \<and> php_isset (tier_entry example_client ''protected'' ''list_items'')
   \<and> resolveEndpoint example_client ''list_items''
       = Inr (''public'', JObj [(''method'', JStr ''GET''), (''path'', JStr ''/items'')])
   \<and> node_tier_entry example_node_client ''user_required'' ''list_items'' = None
   \<and> node_tier_entry example_node_client ''protected'' ''list_items''
       = Some \<lparr>http_method = ''GET'', path = ''/agent/items''\<rparr>
   \<and> getEndpoint example_node_client ''list_items''
       = Some \<lparr>name = ''list_items'', level = ''protected'',
                endpoint = \<lparr>http_method = ''GET'', path = ''/agent/items''\<rparr>\<rparr>"
proof -
  have a: "tier_entry example_client ''public'' ''list_items''
             = JObj [(''method'', JStr ''GET''), (''path'', JStr ''/items'')]"
    by (simp add: tier_entry_def example_client_def example_spec_def php_index_def obj_get_def)
  have b: "php_isset (tier_entry example_client ''protected'' ''list_items'')"
    by (simp add: tier_entry_def example_client_def example_spec_def php_index_def obj_get_def
        php_isset_def)
  have c: "node_tier_entry example_node_client ''user_required'' ''list_items'' = None"
    by (simp add: node_tier_entry_def example_node_client_def example_config_def group_of_def)
  have d: "node_tier_entry example_node_client ''protected'' ''list_items''
             = Some \<lparr>http_method = ''GET'', path = ''/agent/items''\<rparr>"
    by (simp add: node_tier_entry_def example_node_client_def example_config_def group_of_def)
  from collision_policy [of example_client "''list_items''" example_node_client
                            "\<lparr>http_method = ''GET'', path = ''/agent/items''\<rparr>"]
       a b c d
  show ?thesis
    by (simp add: php_isset_def)
qed

text \<open>
  C6 as stated fails in the Node port: \<open>list_items\<close> appears in the public and in the
  protected group, and the index resolves it to the protected entry, not to the entry of
  the earliest tier.
\<close>

theorem node_collision_counterexample:
  "node_tier_entry example_node_client ''public'' ''list_items''
     = Some \<lparr>http_method = ''GET'', path = ''/items''\<rparr>
   \<and> node_tier_entry example_node_client ''protected'' ''list_items''
     = Some \<lparr>http_method = ''GET'', path = ''/agent/items''\<rparr>
   \<and> map_option level (getEndpoint example_node_client ''list_items'') = Some ''protected''
   \<and> map_option level (getEndpoint example_node_client ''list_items'') \<noteq> Some ''public''"
  by (simp add: getEndpoint_unfold node_tier_entry_def example_node_client_def example_config_def
      group_of_def)

subsection \<open>Discovery: structural validation\<close>

lemma explode_head: "(case explode d s of x # _ \<Rightarrow> x | [] \<Rightarrow> []) = takeWhile (\<lambda>c. c \<noteq> d) s"
  by (induction s) (auto split: list.splits)

lemma php_index_JNull: "php_index JNull k = JNull"
  by (simp add: php_index_def)

lemma Discovery_validate_iff:
  "Discovery_validate data = Inr m \<longleftrightarrow> m = data \<and> php_structurally_valid data"
  by (auto simp: Discovery_validate_def php_structurally_valid_def php_has_group_def explode_head
      major_version_def SUPPORTED_MAJOR_VERSION_def php_isset_def Let_def php_index_JNull
      split: json.splits)



lemma Discovery_tryFetch_None:
  "snd (Discovery_tryFetch E u) = Inr None \<longleftrightarrow> is_not_found (http_send E (discovery_request u))"
  by (simp add: Discovery_tryFetch_def guzzle_request_def is_not_found_def
      split: http_outcome.splits option.splits)

lemma Discovery_tryFetch_document:
  assumes "http_send E (discovery_request u) = Response st hs b" and "st < 400"
    and "length b \<le> 1048576"
  shows "snd (Discovery_tryFetch E u)
           = (case json_decode E b of
                None \<Rightarrow> Inl (IaJsonException (Some ''parse_error''))
              | Some data \<Rightarrow>
                  if is_array data then Inr (Some data)
                  else Inl (IaJsonException (Some ''invalid_format'')))"
  using assms
  by (simp add: Discovery_tryFetch_def guzzle_request_def MAX_FILE_SIZE_def split: option.splits)


lemma Discovery_fetch_result:
  assumes "normalizeDomain d0 = Inr d"
  shows "snd (Discovery_fetch E d0)
           = (case snd (Discovery_tryFetch E (primary_url d)) of
                Inl e \<Rightarrow> Inl e
              | Inr (Some data) \<Rightarrow> Discovery_validate data
              | Inr None \<Rightarrow>
                  (case snd (Discovery_tryFetch E (well_known_url d)) of
                     Inl e \<Rightarrow> Inl e
                   | Inr (Some data) \<Rightarrow> Discovery_validate data
                   | Inr None \<Rightarrow> Inl (IaJsonException (Some ''not_found''))))"
proof -
  obtain t r where p: "Discovery_tryFetch E (primary_url d) = (t, r)"
    by (cases "Discovery_tryFetch E (primary_url d)")
  obtain t' r' where w: "Discovery_tryFetch E (well_known_url d) = (t', r')"
    by (cases "Discovery_tryFetch E (well_known_url d)")
  show ?thesis
    by (simp add: Discovery_fetch_def assms Let_def p w split: sum.splits option.splits)
qed



lemma validate_valid:
  "validate data dmn = Inr () \<longleftrightarrow> node_structurally_valid data"
  by (auto simp: validate_def node_structurally_valid_def node_has_group_def Let_def
      split: option.splits json.splits)



lemma tryFetch_None:
  "snd (tryFetch N u dmn) = Inr None \<longleftrightarrow> is_not_found (fetch N (node_discovery_request u))"
  by (auto simp: tryFetch_def is_not_found_def Let_def
      split: http_outcome.splits option.splits sum.splits)

lemma tryFetch_document:
  assumes "fetch N (node_discovery_request u) = Response st hs b" and "200 \<le> st" and "st \<le> 299"
    and "accepted_content_type hs" and "JSON_parse N b = Some data"
  shows "snd (tryFetch N u dmn) = (case validate data dmn of Inl e \<Rightarrow> Inl e | Inr x \<Rightarrow> Inr (Some data))"
  using assms by (auto simp: tryFetch_def accepted_content_type_def Let_def split: sum.splits)


lemma discover_result:
  assumes "n0 \<noteq> []"
  shows "snd (discover N n0)
           = (case snd (tryFetch N (node_primary_url n0) (cleanDomain_of n0)) of
                Inl e \<Rightarrow> Inl e
              | Inr (Some cfg) \<Rightarrow> Inr cfg
              | Inr None \<Rightarrow>
                  (case snd (tryFetch N (node_well_known_url n0) (cleanDomain_of n0)) of
                     Inl e \<Rightarrow> Inl e
                   | Inr (Some cfg) \<Rightarrow> Inr cfg
                   | Inr None \<Rightarrow>
                       Inl (DiscoveryError
                              (''No ia.json found at '' @ cleanDomain_of n0
                               @ '' (tried /ia.json and /.well-known/ia.json)'')
                              (Some (cleanDomain_of n0)) (Some 404))))"
proof -
  obtain t r where p: "tryFetch N (discovery_url (cleanDomain_of n0) ''/ia.json'') (cleanDomain_of n0) = (t, r)"
    by (cases "tryFetch N (discovery_url (cleanDomain_of n0) ''/ia.json'') (cleanDomain_of n0)")
  obtain t' r' where w: "tryFetch N (discovery_url (cleanDomain_of n0) ''/.well-known/ia.json'') (cleanDomain_of n0) = (t', r')"
    by (cases "tryFetch N (discovery_url (cleanDomain_of n0) ''/.well-known/ia.json'') (cleanDomain_of n0)")
  show ?thesis
    using assms
    by (simp add: discover_def DISCOVERY_PATHS_def Let_def node_primary_url_def node_well_known_url_def
        p w split: sum.splits option.splits)
qed





lemma normalizeDomain_example: "normalizeDomain ''shop.example'' = Inr ''shop.example''"
  by (auto simp: normalizeDomain_def strip_scheme_def starts_with_def rtrim_def Let_def)

lemma cleanDomain_of_example: "cleanDomain_of ''shop.example'' = ''shop.example''"
  by (simp add: cleanDomain_of_def strip_scheme_def starts_with_def rtrim_def)

lemma accepted_content_type_json: "accepted_content_type [(''Content-Type'', ''application/json'')]"
  by (simp add: accepted_content_type_def header_get_def to_lower_def starts_with_def)

lemma php_structurally_valid_example: "php_structurally_valid example_spec"
  by (simp add: php_structurally_valid_def php_has_group_def example_spec_def php_index_def
      obj_get_def php_isset_def major_version_def)

lemma node_structurally_valid_example: "node_structurally_valid example_spec"
  by (simp add: node_structurally_valid_def node_has_group_def example_spec_def js_get_def
      obj_get_def semver_test_def digit_def starts_with_def)

lemma manifest_body_length: "length manifest_body \<le> 1048576" "0 < length manifest_body"
  by (simp_all add: manifest_body_def)



subsection \<open>Discovery: fallback\<close>

lemma Discovery_tryFetch_trace: "fst (Discovery_tryFetch E u) = [Http (discovery_request u)]"
  by (simp add: Discovery_tryFetch_def guzzle_request_def split: http_outcome.splits option.splits)

lemma network_requests_simps:
  "network_requests [] = []"
  "network_requests (Http r # t) = r # network_requests t"
  "network_requests (Hmac a b c # t) = network_requests t"
  "network_requests (t @ t') = network_requests t @ network_requests t'"
  by (simp_all add: network_requests_def)

lemma Discovery_fetch_requests:
  assumes "normalizeDomain d0 = Inr d"
  shows "network_requests (fst (Discovery_fetch E d0))
           = discovery_request (primary_url d)
             # (if is_not_found (http_send E (discovery_request (primary_url d)))
                then [discovery_request (well_known_url d)] else [])"
proof -
  obtain t r where p: "Discovery_tryFetch E (primary_url d) = (t, r)"
    by (cases "Discovery_tryFetch E (primary_url d)")
  obtain t' r' where w: "Discovery_tryFetch E (well_known_url d) = (t', r')"
    by (cases "Discovery_tryFetch E (well_known_url d)")
  have t: "t = [Http (discovery_request (primary_url d))]"
    using Discovery_tryFetch_trace [of E "primary_url d"] p by simp
  have t': "t' = [Http (discovery_request (well_known_url d))]"
    using Discovery_tryFetch_trace [of E "well_known_url d"] w by simp
  have n: "r = Inr None \<longleftrightarrow> is_not_found (http_send E (discovery_request (primary_url d)))"
    using Discovery_tryFetch_None [of E "primary_url d"] p by simp
  show ?thesis
    using n by (auto simp: Discovery_fetch_def assms Let_def p w t t' network_requests_simps
        split: sum.splits option.splits)
qed

lemma Discovery_fetch_terminal:
  assumes "normalizeDomain d0 = Inr d"
  shows "http_send E (discovery_request (primary_url d)) = TransportError msg
           \<Longrightarrow> snd (Discovery_fetch E d0) = Inl (IaJsonException (Some ''network_error''))"
    and "http_send E (discovery_request (primary_url d)) = Response st hs b \<Longrightarrow> st \<ge> 400 \<Longrightarrow> st \<noteq> 404
           \<Longrightarrow> snd (Discovery_fetch E d0) = Inl (IaJsonException (Some ''fetch_failed''))"
    and "http_send E (discovery_request (primary_url d)) = Response st hs b \<Longrightarrow> st < 400
           \<Longrightarrow> length b > 1048576
           \<Longrightarrow> snd (Discovery_fetch E d0) = Inl (IaJsonException (Some ''file_too_large''))"
  by (simp_all add: Discovery_fetch_def assms Let_def Discovery_tryFetch_def guzzle_request_def
      MAX_FILE_SIZE_def)

lemma Discovery_fetch_primary_document:
  assumes nd: "normalizeDomain d0 = Inr d"
    and r: "http_send E (discovery_request (primary_url d)) = Response st hs b"
    and st: "st < 400" and len: "length b \<le> 1048576"
  shows "snd (Discovery_fetch E d0)
           = (case json_decode E b of
                None \<Rightarrow> Inl (IaJsonException (Some ''parse_error''))
              | Some data \<Rightarrow>
                  if is_array data then Discovery_validate data
                  else Inl (IaJsonException (Some ''invalid_format'')))"
  by (simp add: Discovery_fetch_result [OF nd] Discovery_tryFetch_document [OF r st len]
      split: option.splits)

lemma tryFetch_trace: "fst (tryFetch N u dmn) = [Http (node_discovery_request u)]"
  by (simp add: tryFetch_def split: http_outcome.splits)

lemma discover_requests:
  assumes "d0 \<noteq> []"
  shows "network_requests (fst (discover N d0))
           = node_discovery_request (discovery_url (cleanDomain_of d0) ''/ia.json'')
             # (if is_not_found (fetch N (node_discovery_request (discovery_url (cleanDomain_of d0) ''/ia.json'')))
                then [node_discovery_request (discovery_url (cleanDomain_of d0) ''/.well-known/ia.json'')]
                else [])"
proof -
  let ?p = "discovery_url (cleanDomain_of d0) ''/ia.json''"
  let ?w = "discovery_url (cleanDomain_of d0) ''/.well-known/ia.json''"
  obtain t r where p: "tryFetch N ?p (cleanDomain_of d0) = (t, r)"
    by (cases "tryFetch N ?p (cleanDomain_of d0)")
  obtain t' r' where w: "tryFetch N ?w (cleanDomain_of d0) = (t', r')"
    by (cases "tryFetch N ?w (cleanDomain_of d0)")
  have t: "t = [Http (node_discovery_request ?p)]"
    using tryFetch_trace [of N ?p "cleanDomain_of d0"] p by simp
  have t': "t' = [Http (node_discovery_request ?w)]"
    using tryFetch_trace [of N ?w "cleanDomain_of d0"] w by simp
  have n: "r = Inr None \<longleftrightarrow> is_not_found (fetch N (node_discovery_request ?p))"
    using tryFetch_None [of N ?p "cleanDomain_of d0"] p by simp
  show ?thesis
    using n assms
    by (auto simp: discover_def DISCOVERY_PATHS_def Let_def p w t t' network_requests_simps
        split: sum.splits option.splits)
qed

lemma discover_terminal:
  assumes "d0 \<noteq> []"
  shows "fetch N (node_discovery_request (discovery_url (cleanDomain_of d0) ''/ia.json'')) = TransportError msg
           \<Longrightarrow> snd (discover N d0)
               = Inl (DiscoveryError (''Network error fetching '' @ discovery_url (cleanDomain_of d0) ''/ia.json''
                                      @ '': '' @ msg) (Some (cleanDomain_of d0)) None)"
    and "fetch N (node_discovery_request (discovery_url (cleanDomain_of d0) ''/ia.json'')) = Response st hs b
           \<Longrightarrow> st \<noteq> 404 \<Longrightarrow> \<not> (200 \<le> st \<and> st \<le> 299)
           \<Longrightarrow> snd (discover N d0)
               = Inl (DiscoveryError (''HTTP '' @ string_of_nat st @ '' fetching ''
                                      @ discovery_url (cleanDomain_of d0) ''/ia.json'')
                        (Some (cleanDomain_of d0)) (Some st))"
  using assms by (auto simp add: discover_def DISCOVERY_PATHS_def Let_def tryFetch_def)

lemma tryFetch_content_type:
  assumes "fetch N (node_discovery_request u) = Response st hs b" and "200 \<le> st" and "st \<le> 299"
    and "\<not> accepted_content_type hs"
  shows "\<exists>msg. snd (tryFetch N u dmn) = Inl (DiscoveryError msg (Some dmn) None)"
  using assms by (auto simp: tryFetch_def accepted_content_type_def Let_def)

lemma tryFetch_parse:
  assumes "fetch N (node_discovery_request u) = Response st hs b" and "200 \<le> st" and "st \<le> 299"
    and "accepted_content_type hs"
  shows "snd (tryFetch N u dmn)
           = (case JSON_parse N b of
                None \<Rightarrow> Inl (DiscoveryError (''Invalid JSON in response from '' @ u) (Some dmn) None)
              | Some data \<Rightarrow> (case validate data dmn of Inl e \<Rightarrow> Inl e | Inr x \<Rightarrow> Inr (Some data)))"
  using assms
  by (auto simp: tryFetch_def accepted_content_type_def Let_def split: option.splits sum.splits)

lemma discover_primary_document:
  assumes ne: "n0 \<noteq> []"
    and r: "fetch N (node_discovery_request (discovery_url (cleanDomain_of n0) ''/ia.json'')) = Response st hs b"
    and st: "200 \<le> st" "st \<le> 299"
  shows "\<not> accepted_content_type hs
           \<Longrightarrow> \<exists>msg. snd (discover N n0) = Inl (DiscoveryError msg (Some (cleanDomain_of n0)) None)"
    and "accepted_content_type hs
           \<Longrightarrow> snd (discover N n0)
               = (case JSON_parse N b of
                    None \<Rightarrow> Inl (DiscoveryError (''Invalid JSON in response from ''
                                                    @ discovery_url (cleanDomain_of n0) ''/ia.json'')
                                   (Some (cleanDomain_of n0)) None)
                  | Some data \<Rightarrow>
                      (case validate data (cleanDomain_of n0) of Inl e \<Rightarrow> Inl e | Inr x \<Rightarrow> Inr data))"
proof -
  note r' = r [folded node_primary_url_def]
  show "\<exists>msg. snd (discover N n0) = Inl (DiscoveryError msg (Some (cleanDomain_of n0)) None)"
    if "\<not> accepted_content_type hs"
    using tryFetch_content_type [OF r' st that, of "cleanDomain_of n0"]
    by (auto simp: discover_result [OF ne])
  show "snd (discover N n0)
               = (case JSON_parse N b of
                    None \<Rightarrow> Inl (DiscoveryError (''Invalid JSON in response from ''
                                                    @ discovery_url (cleanDomain_of n0) ''/ia.json'')
                                   (Some (cleanDomain_of n0)) None)
                  | Some data \<Rightarrow>
                      (case validate data (cleanDomain_of n0) of Inl e \<Rightarrow> Inl e | Inr x \<Rightarrow> Inr data))"
    if "accepted_content_type hs"
    using tryFetch_parse [OF r' st that, of "cleanDomain_of n0"]
    by (auto simp: discover_result [OF ne] node_primary_url_def split: option.splits sum.splits)
qed


text \<open>
  C4, as the code has it. In both ports discovery first requests \<open>/ia.json\<close> and
  requests \<open>/.well-known/ia.json\<close> exactly when the first answer is a response with
  status 404: after any other outcome at the primary location no second request is sent.
  At the primary location a transport error is a terminal failure in both ports; so is a
  status of 400 or more other than 404 in the PHP port, and any status other than 404
  outside 200 to 299 in the Node port; so is, in the PHP port, a body of more than 1 MiB
  received with a status below 400. The PHP port reads a primary answer with a status
  below 400 and a body of at most 1 MiB as the document: it decodes the body and validates
  it. The Node port has no size ceiling: it reads a primary answer with a status from 200
  to 299 as the document whatever the length of the body, checking the content type,
  parsing the body and validating it.
\<close>

theorem discovery_fallback_policy:
  "(normalizeDomain d0 = Inr d \<longrightarrow>
      network_requests (fst (Discovery_fetch E d0))
        = discovery_request (primary_url d)
          # (if is_not_found (http_send E (discovery_request (primary_url d)))
             then [discovery_request (well_known_url d)] else [])
      \<and> (http_send E (discovery_request (primary_url d)) = TransportError msg
           \<longrightarrow> snd (Discovery_fetch E d0) = Inl (IaJsonException (Some ''network_error'')))
      \<and> (http_send E (discovery_request (primary_url d)) = Response st hs b \<and> st \<ge> 400 \<and> st \<noteq> 404
           \<longrightarrow> snd (Discovery_fetch E d0) = Inl (IaJsonException (Some ''fetch_failed'')))
      \<and> (http_send E (discovery_request (primary_url d)) = Response st hs b \<and> st < 400
             \<and> length b > 1048576
           \<longrightarrow> snd (Discovery_fetch E d0) = Inl (IaJsonException (Some ''file_too_large'')))
      \<and> (http_send E (discovery_request (primary_url d)) = Response st hs b \<and> st < 400
             \<and> length b \<le> 1048576
           \<longrightarrow> snd (Discovery_fetch E d0)
               = (case json_decode E b of
                    None \<Rightarrow> Inl (IaJsonException (Some ''parse_error''))
                  | Some data \<Rightarrow>
                      if is_array data then Discovery_validate data
                      else Inl (IaJsonException (Some ''invalid_format'')))))
   \<and> (n0 \<noteq> [] \<longrightarrow>
      network_requests (fst (discover N n0))
        = node_discovery_request (discovery_url (cleanDomain_of n0) ''/ia.json'')
          # (if is_not_found (fetch N (node_discovery_request (discovery_url (cleanDomain_of n0) ''/ia.json'')))
             then [node_discovery_request (discovery_url (cleanDomain_of n0) ''/.well-known/ia.json'')]
             else [])
      \<and> (fetch N (node_discovery_request (discovery_url (cleanDomain_of n0) ''/ia.json'')) = TransportError msg
           \<longrightarrow> snd (discover N n0)
               = Inl (DiscoveryError (''Network error fetching '' @ discovery_url (cleanDomain_of n0) ''/ia.json''
                                      @ '': '' @ msg) (Some (cleanDomain_of n0)) None))
      \<and> (fetch N (node_discovery_request (discovery_url (cleanDomain_of n0) ''/ia.json'')) = Response st hs b
             \<and> st \<noteq> 404 \<and> \<not> (200 \<le> st \<and> st \<le> 299)
           \<longrightarrow> snd (discover N n0)
               = Inl (DiscoveryError (''HTTP '' @ string_of_nat st @ '' fetching ''
                                      @ discovery_url (cleanDomain_of n0) ''/ia.json'')
                        (Some (cleanDomain_of n0)) (Some st)))
      \<and> (fetch N (node_discovery_request (discovery_url (cleanDomain_of n0) ''/ia.json'')) = Response st hs b
             \<and> 200 \<le> st \<and> st \<le> 299 \<and> \<not> accepted_content_type hs
           \<longrightarrow> (\<exists>m. snd (discover N n0) = Inl (DiscoveryError m (Some (cleanDomain_of n0)) None)))
      \<and> (fetch N (node_discovery_request (discovery_url (cleanDomain_of n0) ''/ia.json'')) = Response st hs b
             \<and> 200 \<le> st \<and> st \<le> 299 \<and> accepted_content_type hs
           \<longrightarrow> snd (discover N n0)
               = (case JSON_parse N b of
                    None \<Rightarrow> Inl (DiscoveryError (''Invalid JSON in response from ''
                                                    @ discovery_url (cleanDomain_of n0) ''/ia.json'')
                                   (Some (cleanDomain_of n0)) None)
                  | Some data \<Rightarrow>
                      (case validate data (cleanDomain_of n0) of Inl e \<Rightarrow> Inl e | Inr x \<Rightarrow> Inr data))))"
proof (intro conjI impI)
  assume nd: "normalizeDomain d0 = Inr d"
  show "network_requests (fst (Discovery_fetch E d0))
        = discovery_request (primary_url d)
          # (if is_not_found (http_send E (discovery_request (primary_url d)))
             then [discovery_request (well_known_url d)] else [])"
    by (rule Discovery_fetch_requests [OF nd])
  show "snd (Discovery_fetch E d0) = Inl (IaJsonException (Some ''network_error''))"
    if "http_send E (discovery_request (primary_url d)) = TransportError msg"
    using that by (rule Discovery_fetch_terminal(1) [OF nd])
  show "snd (Discovery_fetch E d0) = Inl (IaJsonException (Some ''fetch_failed''))"
    if "http_send E (discovery_request (primary_url d)) = Response st hs b \<and> st \<ge> 400 \<and> st \<noteq> 404"
    using that Discovery_fetch_terminal(2) [OF nd, of E st hs b] by blast
  show "snd (Discovery_fetch E d0) = Inl (IaJsonException (Some ''file_too_large''))"
    if "http_send E (discovery_request (primary_url d)) = Response st hs b \<and> st < 400
             \<and> length b > 1048576"
    using that Discovery_fetch_terminal(3) [OF nd, of E st hs b] by blast
  show "snd (Discovery_fetch E d0)
               = (case json_decode E b of
                    None \<Rightarrow> Inl (IaJsonException (Some ''parse_error''))
                  | Some data \<Rightarrow>
                      if is_array data then Discovery_validate data
                      else Inl (IaJsonException (Some ''invalid_format'')))"
    if "http_send E (discovery_request (primary_url d)) = Response st hs b \<and> st < 400
             \<and> length b \<le> 1048576"
    using that by (intro Discovery_fetch_primary_document [OF nd, of E st hs b]) simp_all
next
  assume ne: "n0 \<noteq> []"
  show "network_requests (fst (discover N n0))
        = node_discovery_request (discovery_url (cleanDomain_of n0) ''/ia.json'')
          # (if is_not_found (fetch N (node_discovery_request (discovery_url (cleanDomain_of n0) ''/ia.json'')))
             then [node_discovery_request (discovery_url (cleanDomain_of n0) ''/.well-known/ia.json'')]
             else [])"
    by (rule discover_requests [OF ne])
  show "snd (discover N n0)
               = Inl (DiscoveryError (''Network error fetching '' @ discovery_url (cleanDomain_of n0) ''/ia.json''
                                      @ '': '' @ msg) (Some (cleanDomain_of n0)) None)"
    if "fetch N (node_discovery_request (discovery_url (cleanDomain_of n0) ''/ia.json'')) = TransportError msg"
    using that by (rule discover_terminal(1) [OF ne])
  show "snd (discover N n0)
               = Inl (DiscoveryError (''HTTP '' @ string_of_nat st @ '' fetching ''
                                      @ discovery_url (cleanDomain_of n0) ''/ia.json'')
                        (Some (cleanDomain_of n0)) (Some st))"
    if "fetch N (node_discovery_request (discovery_url (cleanDomain_of n0) ''/ia.json'')) = Response st hs b
             \<and> st \<noteq> 404 \<and> \<not> (200 \<le> st \<and> st \<le> 299)"
    using that discover_terminal(2) [OF ne, of N st hs b] by blast
  show "\<exists>m. snd (discover N n0) = Inl (DiscoveryError m (Some (cleanDomain_of n0)) None)"
    if "fetch N (node_discovery_request (discovery_url (cleanDomain_of n0) ''/ia.json'')) = Response st hs b
             \<and> 200 \<le> st \<and> st \<le> 299 \<and> \<not> accepted_content_type hs"
    using that by (intro discover_primary_document(1) [OF ne, of N st hs b]) simp_all
  show "snd (discover N n0)
               = (case JSON_parse N b of
                    None \<Rightarrow> Inl (DiscoveryError (''Invalid JSON in response from ''
                                                    @ discovery_url (cleanDomain_of n0) ''/ia.json'')
                                   (Some (cleanDomain_of n0)) None)
                  | Some data \<Rightarrow>
                      (case validate data (cleanDomain_of n0) of Inl e \<Rightarrow> Inl e | Inr x \<Rightarrow> Inr data))"
    if "fetch N (node_discovery_request (discovery_url (cleanDomain_of n0) ''/ia.json'')) = Response st hs b
             \<and> 200 \<le> st \<and> st \<le> 299 \<and> accepted_content_type hs"
    using that by (intro discover_primary_document(2) [OF ne, of N st hs b]) simp_all
qed

theorem discovery_fallback_policy_witness:
  "normalizeDomain ''shop.example'' = Inr ''shop.example''
   \<and> http_send server_error_env (discovery_request (primary_url ''shop.example'')) = Response 500 [] []
   \<and> network_requests (fst (Discovery_fetch server_error_env ''shop.example''))
       = [discovery_request (primary_url ''shop.example'')]
   \<and> snd (Discovery_fetch server_error_env ''shop.example'') = Inl (IaJsonException (Some ''fetch_failed''))
   \<and> is_not_found (http_send example_env (discovery_request (primary_url ''shop.example'')))
   \<and> network_requests (fst (Discovery_fetch example_env ''shop.example''))
       = [discovery_request (primary_url ''shop.example''), discovery_request (well_known_url ''shop.example'')]
   \<and> network_requests (fst (discover example_node_env ''shop.example''))
       = [node_discovery_request (discovery_url (cleanDomain_of ''shop.example'') ''/ia.json'')]
   \<and> http_send oversize_env (discovery_request (primary_url ''shop.example''))
       = Response 200 [] (replicate 1048577 CHR ''x'')
   \<and> length (replicate 1048577 CHR ''x'') > 1048576
   \<and> snd (Discovery_fetch oversize_env ''shop.example'') = Inl (IaJsonException (Some ''file_too_large''))
   \<and> network_requests (fst (Discovery_fetch oversize_env ''shop.example''))
       = [discovery_request (primary_url ''shop.example'')]
   \<and> http_send manifest_env (discovery_request (primary_url ''shop.example''))
       = Response 200 [(''Content-Type'', ''application/json'')] manifest_body
   \<and> length manifest_body \<le> 1048576
   \<and> snd (Discovery_fetch manifest_env ''shop.example'') = Inr example_spec
   \<and> fetch padded_node_env (node_discovery_request (discovery_url (cleanDomain_of ''shop.example'') ''/ia.json''))
       = Response 200 [(''Content-Type'', ''application/json'')] padded_body
   \<and> accepted_content_type [(''Content-Type'', ''application/json'')]
   \<and> length padded_body > 1048576
   \<and> snd (discover padded_node_env ''shop.example'') = Inr example_spec"
proof -
  have m1: "http_send manifest_env (discovery_request (primary_url ''shop.example''))
       = Response 200 [(''Content-Type'', ''application/json'')] manifest_body"
    "json_decode manifest_env manifest_body = Some example_spec"
    by (simp_all add: manifest_env_def)
  have m2: "Discovery_validate example_spec = Inr example_spec" "is_array example_spec"
    by (simp_all add: Discovery_validate_iff php_structurally_valid_example) (simp add: example_spec_def)
  have doc1: "snd (Discovery_fetch manifest_env ''shop.example'') = Inr example_spec"
    using discovery_fallback_policy
      [of "''shop.example''" "''shop.example''" manifest_env _ 200
          "[(''Content-Type'', ''application/json'')]" manifest_body
          "''shop.example''" padded_node_env,
       THEN conjunct1, THEN mp, OF normalizeDomain_example,
       THEN conjunct2, THEN conjunct2, THEN conjunct2, THEN conjunct2]
      m1 m2 manifest_body_length(1)
    by simp
  have q1: "fetch padded_node_env (node_discovery_request (discovery_url (cleanDomain_of ''shop.example'') ''/ia.json''))
       = Response 200 [(''Content-Type'', ''application/json'')] padded_body"
    "JSON_parse padded_node_env padded_body = Some example_spec"
    by (simp_all add: padded_node_env_def)
  have q2: "validate example_spec (cleanDomain_of ''shop.example'') = Inr ()"
    by (simp add: validate_valid node_structurally_valid_example)
  have q3: "length padded_body > 1048576"
    using manifest_body_length(2) by (simp add: padded_body_def)
  have doc2: "snd (discover padded_node_env ''shop.example'') = Inr example_spec"
    using discovery_fallback_policy
      [of "''shop.example''" "''shop.example''" manifest_env _ 200
          "[(''Content-Type'', ''application/json'')]" padded_body
          "''shop.example''" padded_node_env,
       THEN conjunct2, THEN mp,
       THEN conjunct2, THEN conjunct2, THEN conjunct2, THEN conjunct2]
      q1 q2 accepted_content_type_json
    by simp
  have o: "http_send oversize_env (discovery_request (primary_url ''shop.example''))
       = Response 200 [] (replicate 1048577 CHR ''x'')"
    by (simp add: oversize_env_def)
  have l: "length (replicate 1048577 CHR ''x'') > 1048576" "(200::nat) < 400"
    by simp_all
  have no: "\<not> is_not_found (http_send oversize_env (discovery_request (primary_url ''shop.example'')))"
    by (simp add: o is_not_found_def)
  note big = discovery_fallback_policy
      [of "''shop.example''" "''shop.example''" oversize_env _ 200 "[]" "replicate 1048577 CHR ''x''"
          "''shop.example''" example_node_env,
       THEN conjunct1, THEN mp, OF normalizeDomain_example]
  have big1: "network_requests (fst (Discovery_fetch oversize_env ''shop.example''))
       = [discovery_request (primary_url ''shop.example'')]"
    using big [THEN conjunct1] no by simp
  have big2: "snd (Discovery_fetch oversize_env ''shop.example'') = Inl (IaJsonException (Some ''file_too_large''))"
    using big [THEN conjunct2, THEN conjunct2, THEN conjunct2] o l by simp
  have a: "http_send server_error_env (discovery_request (primary_url ''shop.example'')) = Response 500 [] []"
    by (simp add: server_error_env_def)
  have b: "is_not_found (http_send example_env (discovery_request (primary_url ''shop.example'')))"
    by (simp add: example_env_def is_not_found_def)
  have c: "\<not> is_not_found (http_send server_error_env (discovery_request (primary_url ''shop.example'')))"
    by (simp add: server_error_env_def is_not_found_def)
  have d: "\<not> is_not_found (fetch example_node_env
             (node_discovery_request (discovery_url (cleanDomain_of ''shop.example'') ''/ia.json'')))"
    by (simp add: example_node_env_def is_not_found_def)
  have e: "''shop.example'' \<noteq> []" "(500::nat) \<ge> 400" "(500::nat) \<noteq> 404"
    by simp_all
  from discovery_fallback_policy [of "''shop.example''" "''shop.example''" server_error_env _ 500 "[]" "[]"
                                     "''shop.example''" example_node_env]
       discovery_fallback_policy [of "''shop.example''" "''shop.example''" example_env _ 500 "[]" "[]"
                                     "''shop.example''" example_node_env]
       normalizeDomain_example a b c d e o l big1 big2 m1(1) manifest_body_length(1) doc1
       q1(1) accepted_content_type_json q3 doc2
  show ?thesis
    by simp
qed

text \<open>
  C4 as stated fails in the PHP port: status 300 is neither 2xx nor 404, and a primary
  response with status 300 whose body is a valid manifest is not a failure, discovery
  returns the manifest. It fails in the Node port as well: a primary response whose body
  is longer than 1 MiB is not a failure, discovery returns the manifest. No fallback
  request is sent in either case.
\<close>

theorem non_2xx_counterexample:
  "http_send multiple_choices_env (discovery_request (primary_url ''shop.example''))
     = Response 300 [(''Content-Type'', ''application/json'')] manifest_body
   \<and> snd (Discovery_fetch multiple_choices_env ''shop.example'') = Inr example_spec
   \<and> network_requests (fst (Discovery_fetch multiple_choices_env ''shop.example''))
       = [discovery_request (primary_url ''shop.example'')]
   \<and> fetch padded_node_env (node_discovery_request (node_primary_url ''shop.example''))
       = Response 200 [(''Content-Type'', ''application/json'')] padded_body
   \<and> length padded_body > 1048576
   \<and> snd (discover padded_node_env ''shop.example'') = Inr example_spec
   \<and> network_requests (fst (discover padded_node_env ''shop.example''))
       = [node_discovery_request (node_primary_url ''shop.example'')]"
proof -
  have v: "Discovery_validate example_spec = Inr example_spec"
    by (simp add: Discovery_validate_iff php_structurally_valid_example)
  have t: "Discovery_tryFetch multiple_choices_env (primary_url ''shop.example'')
             = ([Http (discovery_request (primary_url ''shop.example''))], Inr (Some example_spec))"
    by (simp add: Discovery_tryFetch_def guzzle_request_def multiple_choices_env_def manifest_env_def
        example_env_def manifest_body_def MAX_FILE_SIZE_def example_spec_def)
  have p: "snd (Discovery_fetch multiple_choices_env ''shop.example'') = Inr example_spec
     \<and> network_requests (fst (Discovery_fetch multiple_choices_env ''shop.example''))
         = [discovery_request (primary_url ''shop.example'')]"
    by (simp add: Discovery_fetch_def normalizeDomain_example Let_def t v network_requests_simps)
  have h: "http_send multiple_choices_env (discovery_request (primary_url ''shop.example''))
     = Response 300 [(''Content-Type'', ''application/json'')] manifest_body"
    by (simp add: multiple_choices_env_def)
  have q1: "fetch padded_node_env (node_discovery_request (node_primary_url ''shop.example''))
       = Response 200 [(''Content-Type'', ''application/json'')] padded_body"
    "JSON_parse padded_node_env padded_body = Some example_spec"
    by (simp_all add: padded_node_env_def)
  have q2: "validate example_spec ''shop.example'' = Inr ()"
    by (simp add: validate_valid node_structurally_valid_example)
  have q3: "length padded_body > 1048576"
    using manifest_body_length(2) by (simp add: padded_body_def)
  have nt: "snd (tryFetch padded_node_env (node_primary_url ''shop.example'') ''shop.example'')
              = Inr (Some example_spec)"
    using tryFetch_document [OF q1(1) _ _ accepted_content_type_json q1(2), of "''shop.example''"]
    by (simp add: q2)
  have n: "snd (discover padded_node_env ''shop.example'') = Inr example_spec"
    using discover_result [of "''shop.example''" padded_node_env]
    by (simp add: cleanDomain_of_example nt)
  have nf: "\<not> is_not_found (fetch padded_node_env
              (node_discovery_request (discovery_url (cleanDomain_of ''shop.example'') ''/ia.json'')))"
    using q1(1) by (simp add: node_primary_url_def is_not_found_def)
  have r: "network_requests (fst (discover padded_node_env ''shop.example''))
       = [node_discovery_request (node_primary_url ''shop.example'')]"
    using discover_requests [of "''shop.example''" padded_node_env] nf
    by (simp add: node_primary_url_def)
  from p h q1(1) q3 n r show ?thesis
    by simp
qed

subsection \<open>Path parameters\<close>

lemma not_word_char_braces: "\<not> word_char CHR ''{''" "\<not> word_char CHR ''}''"
  by (simp_all add: word_char_def word_chars_def)

lemma dropWhile_stop: "\<not> P y \<Longrightarrow> dropWhile P (xs @ y # ys) = dropWhile P xs @ y # ys"
  by (induction xs) auto

lemma takeWhile_stop: "\<not> P y \<Longrightarrow> list_all P xs \<Longrightarrow> takeWhile P (xs @ y # ys) = xs"
  by (induction xs) auto

lemma dropWhile_all: "list_all P xs \<Longrightarrow> dropWhile P (xs @ ys) = dropWhile P ys"
  by (induction xs) auto

lemma map_of_array_unset: "map_of ps k = None \<Longrightarrow> map_of (array_unset k' ps) k = None"
  by (induction ps) (auto simp: array_unset_def)

lemma substitutePath_missing:
  assumes "key \<noteq> []" and "list_all word_char key"
  shows "map_of params key = None
    \<Longrightarrow> substitutePath E (pre @ ''{'' @ key @ ''}'' @ post) params = Inl missing_parameter"
proof (induction "length pre" arbitrary: pre params rule: less_induct)
  case less
  show ?case
  proof (cases pre)
    case Nil
    have tw: "takeWhile word_char (key @ CHR ''}'' # post) = key"
      using takeWhile_stop [OF not_word_char_braces(2) assms(2)] .
    have dw: "dropWhile word_char (key @ CHR ''}'' # post) = CHR ''}'' # post"
      using dropWhile_all [OF assms(2), of "CHR ''}'' # post"] not_word_char_braces(2) by simp
    show ?thesis
      using less.prems assms(1)
      by (simp add: Nil substitutePath.simps tw dw starts_with_def missing_parameter_def)
  next
    case (Cons c pre')
    define cs where "cs = pre' @ CHR ''{'' # key @ CHR ''}'' # post"
    have s: "pre @ ''{'' @ key @ ''}'' @ post = c # cs"
      by (simp add: Cons cs_def)
    have ih_tail: "substitutePath E cs params = Inl missing_parameter"
      using less.hyps [of pre' params] less.prems by (simp add: Cons cs_def)
    show ?thesis
    proof (cases "c = CHR ''{'' \<and> takeWhile word_char cs \<noteq> []
                   \<and> starts_with (dropWhile word_char cs) ''}''")
      case False
      then show ?thesis
        unfolding s by (auto simp add: substitutePath.simps(2) [of E _ cs] ih_tail)
    next
      case True
      have dw: "dropWhile word_char cs = dropWhile word_char pre' @ CHR ''{'' # key @ CHR ''}'' # post"
        unfolding cs_def
        using dropWhile_stop [of word_char "CHR ''{''" pre' "key @ CHR ''}'' # post"]
          not_word_char_braces(1) by simp
      from True have sw: "starts_with (dropWhile word_char cs) ''}''"
        by simp
      then obtain x pre'' where d: "dropWhile word_char pre' = x # pre''"
        unfolding dw by (cases "dropWhile word_char pre'") (auto simp: starts_with_def)
      have len: "length pre'' < length pre"
        using length_dropWhile_le [of word_char pre'] by (simp add: d Cons)
      have drop1: "drop 1 (dropWhile word_char cs) = pre'' @ ''{'' @ key @ ''}'' @ post"
        by (simp add: dw d)
      show ?thesis
      proof (cases "map_of params (takeWhile word_char cs)")
        case None
        then show ?thesis
          unfolding s using True
          by (simp add: substitutePath.simps(2) [of E _ cs] Let_def missing_parameter_def)
      next
        case (Some v)
        have "map_of (array_unset (takeWhile word_char cs) params) key = None"
          using less.prems by (rule map_of_array_unset)
        then have "substitutePath E (pre'' @ ''{'' @ key @ ''}'' @ post)
                     (array_unset (takeWhile word_char cs) params) = Inl missing_parameter"
          using less.hyps [OF len] by simp
        then have r: "substitutePath E (drop 1 (dropWhile word_char cs))
                     (array_unset (takeWhile word_char cs) params) = Inl missing_parameter"
          by (simp only: drop1)
        show ?thesis
          unfolding s using True Some r
          by (simp add: substitutePath.simps(2) [of E _ cs] Let_def)
      qed
    qed
  qed
qed

lemma call_missing_parameter:
  assumes "resolveEndpoint c nm = Inr (lv, ep)"
    and "php_index ep ''method'' = JStr m"
    and "php_index ep ''path'' = JStr (pre @ ''{'' @ key @ ''}'' @ post)"
    and "key \<noteq> []" and "list_all word_char key" and "map_of params key = None"
  shows "call E c nm params = ([], Inl missing_parameter, c)"
  using assms(1-3) substitutePath_missing [OF assms(4,5,6), of E pre post]
  by (simp add: call_def buildRequest_def Let_def)

lemma route_params_path_and_query:
  "route_params example_node_env ''GET'' [(''id'', JStr ''7''), (''q'', JStr ''tv'')] (''/items/{id}'', [], [])
     = (''/items/7'', [(''q'', ''tv'')], [])"
  by (simp add: array_index_def digit_def digit_value_def js_set_def starts_with_def
      example_node_env_def)

lemma route_params_body:
  "route_params example_node_env ''POST''
     [(''b'', JStr ''x''), (''1'', JStr ''y''), (''__proto__'', JStr ''z'')] (''/orders'', [], [])
     = (''/orders'', [], [(''1'', JStr ''y''), (''b'', JStr ''x'')])"
  by (simp add: array_index_def digit_def digit_value_def js_set_def starts_with_def)

lemma network_requests_single: "network_requests [Http r] = [r]"
  by (simp add: network_requests_def)

lemma node_call_no_params:
  assumes "getEndpoint nc nm = Some r" and "level r = ''public''"
    and "URL_resolve N (path (endpoint r)) (base_url (api (config nc))) = Some u0"
  shows "network_requests (fst (node_call N nc nm []))
           = [\<lparr>req_method = http_method (endpoint r), req_url = URL_with_query N u0 [],
               req_headers = [(''Accept'', ''application/json'')], req_query = [],
               req_body = NoBody\<rparr>]"
proof -
  have i: "map_of (endpointIndex nc) nm = Some r"
    using assms(1) by (simp add: getEndpoint_def)
  have a: "attach_auth N nc ''public'' hs body = ([], hs)" for hs body
    by (simp add: attach_auth_def split: option.splits)
  have c: "check_credentials nc ''public'' nm = None"
    by (simp add: check_credentials_def)
  show ?thesis
    using assms(2,3)
    by (simp add: node_call_def i Let_def a c send_request_def network_requests_single
        split: http_outcome.splits)
qed

text \<open>
  C7, as the code has it. In the PHP client, when the path template of the resolved
  operation contains a placeholder \<open>{key}\<close>, \<open>key\<close> a non-empty run of word
  characters, and \<open>params\<close> has no value for \<open>key\<close>, \<open>call\<close> fails with
  \<open>missing_parameter\<close> without any effect: no request is sent and the client is
  unchanged. The Node client has no such check: called without parameters on a public
  operation it sends the request with the path template as it stands.
\<close>

theorem missing_path_parameter:
  "(resolveEndpoint c nm = Inr (lv, ep)
      \<and> php_index ep ''method'' = JStr m
      \<and> php_index ep ''path'' = JStr (pre @ ''{'' @ key @ ''}'' @ post)
      \<and> key \<noteq> [] \<and> list_all word_char key \<and> map_of params key = None
      \<longrightarrow> call E c nm params = ([], Inl missing_parameter, c))
   \<and> (getEndpoint nc nm = Some r \<and> level r = ''public''
      \<and> URL_resolve N (path (endpoint r)) (base_url (api (config nc))) = Some u0
      \<longrightarrow> network_requests (fst (node_call N nc nm []))
            = [\<lparr>req_method = http_method (endpoint r), req_url = URL_with_query N u0 [],
                req_headers = [(''Accept'', ''application/json'')], req_query = [],
                req_body = NoBody\<rparr>])"
  using call_missing_parameter [of c nm lv ep m pre key post params E]
    node_call_no_params [of nc nm r N u0]
  by blast

lemma getEndpoint_get_item:
  "getEndpoint example_node_client ''get_item''
     = Some \<lparr>name = ''get_item'', level = ''public'',
              endpoint = \<lparr>http_method = ''GET'', path = ''/items/{id}''\<rparr>\<rparr>"
  by (simp add: getEndpoint_unfold node_tier_entry_def example_node_client_def example_config_def
      group_of_def)

theorem missing_path_parameter_witness:
  "resolveEndpoint example_client ''get_item''
     = Inr (''public'', JObj [(''method'', JStr ''GET''), (''path'', JStr ''/items/{id}'')])
   \<and> list_all word_char ''id'' \<and> map_of ([] :: (string \<times> json) list) ''id'' = None
   \<and> call example_env example_client ''get_item'' [] = ([], Inl missing_parameter, example_client)"
proof -
  have a: "resolveEndpoint example_client ''get_item''
     = Inr (''public'', JObj [(''method'', JStr ''GET''), (''path'', JStr ''/items/{id}'')])"
    by (simp add: resolveEndpoint_unfold tier_entry_def example_client_def example_spec_def
        php_index_def obj_get_def php_isset_def)
  have b: "php_index (JObj [(''method'', JStr ''GET''), (''path'', JStr ''/items/{id}'')]) ''method''
             = JStr ''GET''"
    by (simp add: php_index_def obj_get_def)
  have c: "php_index (JObj [(''method'', JStr ''GET''), (''path'', JStr ''/items/{id}'')]) ''path''
             = JStr (''/items/'' @ ''{'' @ ''id'' @ ''}'' @ [])"
    by (simp add: php_index_def obj_get_def)
  have d: "''id'' \<noteq> []" "list_all word_char ''id''" "map_of ([] :: (string \<times> json) list) ''id'' = None"
    by (simp_all add: word_char_def word_chars_def)
  from missing_path_parameter
         [of example_client "''get_item''" "''public''"
             "JObj [(''method'', JStr ''GET''), (''path'', JStr ''/items/{id}'')]" "''GET''"
             "''/items/''" "''id''" "[]" "[]" example_env]
       a b c d
  show ?thesis
    by blast
qed

text \<open>
  C7 as stated fails in the Node port: the path template of \<open>get_item\<close> contains the
  placeholder \<open>{id}\<close>, no parameter is supplied, and the call sends its request, with
  the placeholder in the URL (its braces percent-encoded by the URL parser), and returns
  the response.
\<close>

theorem node_missing_parameter_counterexample:
  "map_option (\<lambda>r. path (endpoint r)) (getEndpoint example_node_client ''get_item'') = Some ''/items/{id}''
   \<and> node_call example_node_env example_node_client ''get_item'' []
       = ([Http \<lparr>req_method = ''GET'', req_url = ''https://shop.example/items/%7Bid%7D'',
                  req_headers = [(''Accept'', ''application/json'')], req_query = [],
                  req_body = NoBody\<rparr>],
          Inr (200, [], ''{}''))"
proof -
  have i: "map_of (endpointIndex example_node_client) ''get_item''
     = Some \<lparr>name = ''get_item'', level = ''public'',
              endpoint = \<lparr>http_method = ''GET'', path = ''/items/{id}''\<rparr>\<rparr>"
    using getEndpoint_get_item by (simp add: getEndpoint_def)
  have a: "attach_auth N example_node_client ''public'' hs body = ([], hs)" for N hs body
    by (simp add: attach_auth_def split: option.splits)
  have c: "check_credentials example_node_client ''public'' ''get_item'' = None"
    by (simp add: check_credentials_def)
  have b: "base_url (api (config example_node_client)) = ''https://shop.example/api''"
    by (simp add: example_node_client_def example_config_def)
  show ?thesis
    by (simp add: getEndpoint_get_item node_call_def i Let_def a c b send_request_def
        example_node_env_def)
qed

subsection \<open>Authentication attachment\<close>

lemma string_of_int_example: "string_of_int 1707753600 = ''1707753600''"
  by (simp add: string_of_int_def string_of_nat.simps digit_char_def)

lemma number_to_string_example: "number_to_string example_node_env 1707753600 = ''1707753600''"
  by (simp add: number_to_string_def string_of_int_example)

lemma getEndpoint_get_profile:
  "map_of (endpointIndex registered_node_client) ''get_profile''
     = Some \<lparr>name = ''get_profile'', level = ''user_required'',
              endpoint = \<lparr>http_method = ''GET'', path = ''/me''\<rparr>\<rparr>"
  "map_of (endpointIndex authorized_node_client) ''get_profile''
     = Some \<lparr>name = ''get_profile'', level = ''user_required'',
              endpoint = \<lparr>http_method = ''GET'', path = ''/me''\<rparr>\<rparr>"
  using getEndpoint_unfold [of registered_node_client "''get_profile''"]
    getEndpoint_unfold [of authorized_node_client "''get_profile''"]
  by (simp_all add: getEndpoint_def node_tier_entry_def registered_node_client_def
      authorized_node_client_def example_node_client_def example_config_def group_of_def)

lemma example_url:
  "URL_resolve example_node_env ''/me'' ''https://shop.example/api'' = Some ''https://shop.example/me''"
  "URL_with_query example_node_env ''https://shop.example/me'' [] = ''https://shop.example/me''"
  by (simp_all add: example_node_env_def)

lemma example_send:
  "send_request example_node_env nm rq = ([Http rq], Inr (200, [], ''{}''))"
  by (simp add: send_request_def example_node_env_def)

lemma node_call_registered:
  "node_call example_node_env registered_node_client ''get_profile'' []
     = ([Hmac ''sha256'' ''1707753600.'' ''sec_1'',
         Http \<lparr>req_method = ''GET'', req_url = ''https://shop.example/me'',
               req_headers = [(''Accept'', ''application/json''),
                              (''X-IA-Key'', ''ak_live_1''),
                              (''X-IA-Timestamp'', ''1707753600''),
                              (''X-IA-Signature'', ''sha256:sec_1:1707753600.'')],
               req_query = [], req_body = NoBody\<rparr>],
        Inr (200, [], ''{}''))"
proof -
  have b: "base_url (api (config registered_node_client)) = ''https://shop.example/api''"
    "bearer_token registered_node_client = None"
    "credentials registered_node_client = Some \<lparr>api_key = ''ak_live_1'', signing_secret = ''sec_1''\<rparr>"
    "signed_prefix registered_node_client = ''X-IA-''"
    by (simp_all add: registered_node_client_def example_node_client_def example_config_def
        signed_prefix_def)
  have n: "now_seconds example_node_env = 1707753600"
    "hmac_sha256_hex example_node_env ''sec_1'' ''1707753600.'' = ''sha256:sec_1:1707753600.''"
    by (simp_all add: example_node_env_def)
  have s: "node_createSignedHeaders example_node_env ''ak_live_1'' ''sec_1'' [] ''X-IA-''
             = ([Hmac ''sha256'' ''1707753600.'' ''sec_1''],
                [(''X-IA-Key'', ''ak_live_1''),
                 (''X-IA-Timestamp'', ''1707753600''),
                 (''X-IA-Signature'', ''sha256:sec_1:1707753600.'')])"
    by (simp add: node_createSignedHeaders_def node_sign_def Let_def n number_to_string_example)
  have a: "attach_auth example_node_env registered_node_client ''user_required''
             [(''Accept'', ''application/json'')] []
           = ([Hmac ''sha256'' ''1707753600.'' ''sec_1''],
              [(''Accept'', ''application/json''),
               (''X-IA-Key'', ''ak_live_1''),
               (''X-IA-Timestamp'', ''1707753600''),
               (''X-IA-Signature'', ''sha256:sec_1:1707753600.'')])"
    by (simp add: attach_auth_def b s array_merge_def)
  have c: "check_credentials registered_node_client ''user_required'' ''get_profile'' = None"
    by (simp add: check_credentials_def b)
  show ?thesis
    by (simp add: node_call_def getEndpoint_get_profile(1) Let_def b a c example_url example_send)
qed

lemma node_call_authorized:
  "node_call example_node_env authorized_node_client ''get_profile'' []
     = ([Http \<lparr>req_method = ''GET'', req_url = ''https://shop.example/me'',
               req_headers = [(''Accept'', ''application/json''),
                              (''Authorization'', ''Bearer tok_1'')],
               req_query = [], req_body = NoBody\<rparr>],
        Inr (200, [], ''{}''))"
proof -
  have b: "base_url (api (config authorized_node_client)) = ''https://shop.example/api''"
    "bearer_token authorized_node_client = Some ''tok_1''"
    "credentials authorized_node_client = None"
    by (simp_all add: authorized_node_client_def example_node_client_def example_config_def)
  have a: "attach_auth example_node_env authorized_node_client ''user_required''
             [(''Accept'', ''application/json'')] []
           = ([], [(''Accept'', ''application/json''), (''Authorization'', ''Bearer tok_1'')])"
    by (simp add: attach_auth_def b)
  have c: "check_credentials authorized_node_client ''user_required'' ''get_profile'' = None"
    by (simp add: check_credentials_def b truthy_def)
  show ?thesis
    by (simp add: node_call_def getEndpoint_get_profile(2) Let_def b a c example_url example_send)
qed

lemma buildRequest_get_profile:
  assumes "spec c = example_spec"
  shows "resolveEndpoint c ''get_profile''
           = Inr (''user_required'', JObj [(''method'', JStr ''GET''), (''path'', JStr ''/me'')])"
    and "buildRequest example_env c (JObj [(''method'', JStr ''GET''), (''path'', JStr ''/me'')]) []
           = Inr (\<lparr>req_method = ''GET'', req_url = ''https://shop.example/api/me'',
                   req_headers = [(''Accept'', ''application/json''), (''User-Agent'', ''iajson-php/1.0.0'')],
                   req_query = [], req_body = NoBody\<rparr>, [])"
proof -
  show "resolveEndpoint c ''get_profile''
           = Inr (''user_required'', JObj [(''method'', JStr ''GET''), (''path'', JStr ''/me'')])"
    by (simp add: resolveEndpoint_unfold tier_entry_def assms example_spec_def php_index_def
        obj_get_def php_isset_def)
  have s: "substitutePath example_env ''/me'' [] = Inr (''/me'', [])"
    by (simp add: substitutePath.simps)
  have u: "strtoupper ''GET'' = ''GET''"
    by (simp add: strtoupper_def to_upper_def)
  have b: "php_index (php_index (spec c) ''api'') ''base_url'' = JStr ''https://shop.example/api''"
    by (simp add: assms example_spec_def php_index_def obj_get_def)
  have m: "php_index (JObj [(''method'', JStr ''GET''), (''path'', JStr ''/me'')]) ''method'' = JStr ''GET''"
    "php_index (JObj [(''method'', JStr ''GET''), (''path'', JStr ''/me'')]) ''path'' = JStr ''/me''"
    by (simp_all add: php_index_def obj_get_def)
  show "buildRequest example_env c (JObj [(''method'', JStr ''GET''), (''path'', JStr ''/me'')]) []
           = Inr (\<lparr>req_method = ''GET'', req_url = ''https://shop.example/api/me'',
                   req_headers = [(''Accept'', ''application/json''), (''User-Agent'', ''iajson-php/1.0.0'')],
                   req_query = [], req_body = NoBody\<rparr>, [])"
    by (simp add: buildRequest_def Let_def m s u b rtrim_def ltrim_def)
qed

lemma call_registered:
  "call example_env registered_client ''get_profile'' []
     = ([Hmac ''sha256'' ''1707753600.'' ''sec_1''], Inl missingOAuthToken, registered_client)"
proof -
  have sp: "spec registered_client = example_spec"
    by (simp add: registered_client_def example_client_def)
  have k: "apiKey registered_client = Some ''ak_live_1''" "secret registered_client = Some ''sec_1''"
    "oauthToken registered_client = None" "oauth registered_client = None"
    by (simp_all add: registered_client_def example_client_def)
  have g: "php_index (php_index (php_index (spec registered_client) ''auth'') ''signed_key'') ''algorithm''
             = JStr ''sha256''"
    "php_index (php_index (php_index (spec registered_client) ''auth'') ''signed_key'') ''header_prefix''
             = JNull"
    by (simp_all add: sp example_spec_def php_index_def obj_get_def)
  have h: "createSignedHeaders example_env ''ak_live_1'' ''sec_1'' [] ''sha256'' ''X-IA-''
             = ([Hmac ''sha256'' ''1707753600.'' ''sec_1''],
                Inr [(''X-IA-Key'', ''ak_live_1''),
                     (''X-IA-Signature'', ''sha256:sec_1:1707753600.''),
                     (''X-IA-Timestamp'', ''1707753600'')])"
    by (simp add: createSignedHeaders_def sign_def hash_hmac_def buildSigningString_def Let_def
        example_env_def string_of_int_example)
  have a: "applyAuth example_env registered_client hs ''user_required'' []
             = ([Hmac ''sha256'' ''1707753600.'' ''sec_1''], Inl missingOAuthToken, registered_client)" for hs
    by (simp add: applyAuth_def k g h Let_def)
  show ?thesis
    by (simp add: call_def buildRequest_get_profile [OF sp] a)
qed

lemma call_authorized:
  "call example_env authorized_client ''get_profile'' [] = ([], Inl missingCredentials, authorized_client)"
proof -
  have sp: "spec authorized_client = example_spec"
    by (simp add: authorized_client_def example_client_def)
  have k: "apiKey authorized_client = None"
    by (simp add: authorized_client_def example_client_def)
  have a: "applyAuth example_env authorized_client hs ''user_required'' []
             = ([], Inl missingCredentials, authorized_client)" for hs
    by (simp add: applyAuth_def k)
  show ?thesis
    by (simp add: call_def buildRequest_get_profile [OF sp] a)
qed

text \<open>
  C3 fails in the Node port. \<open>get_profile\<close> is a user-required endpoint. A Node client
  that holds agent credentials and no access token sends the request, signed and without
  an \<open>Authorization\<close> header, and returns the response; a Node client that holds an access
  token and no credentials sends the request with the bearer token and without signed
  headers. On the same manifest and the same two states the PHP client fails before any
  request, with \<open>missing_oauth_token\<close> and with \<open>missing_credentials\<close>.
\<close>

theorem node_user_required_partial_credentials:
  "map_option level (getEndpoint registered_node_client ''get_profile'') = Some ''user_required''
   \<and> credentials registered_node_client = Some \<lparr>api_key = ''ak_live_1'', signing_secret = ''sec_1''\<rparr>
   \<and> bearer_token registered_node_client = None
   \<and> node_call example_node_env registered_node_client ''get_profile'' []
       = ([Hmac ''sha256'' ''1707753600.'' ''sec_1'',
           Http \<lparr>req_method = ''GET'', req_url = ''https://shop.example/me'',
                 req_headers = [(''Accept'', ''application/json''),
                                (''X-IA-Key'', ''ak_live_1''),
                                (''X-IA-Timestamp'', ''1707753600''),
                                (''X-IA-Signature'', ''sha256:sec_1:1707753600.'')],
                 req_query = [], req_body = NoBody\<rparr>],
          Inr (200, [], ''{}''))
   \<and> credentials authorized_node_client = None
   \<and> bearer_token authorized_node_client = Some ''tok_1''
   \<and> node_call example_node_env authorized_node_client ''get_profile'' []
       = ([Http \<lparr>req_method = ''GET'', req_url = ''https://shop.example/me'',
                 req_headers = [(''Accept'', ''application/json''),
                                (''Authorization'', ''Bearer tok_1'')],
                 req_query = [], req_body = NoBody\<rparr>],
          Inr (200, [], ''{}''))
   \<and> call example_env registered_client ''get_profile'' []
       = ([Hmac ''sha256'' ''1707753600.'' ''sec_1''], Inl missingOAuthToken, registered_client)
   \<and> network_requests [Hmac ''sha256'' ''1707753600.'' ''sec_1''] = []
   \<and> call example_env authorized_client ''get_profile'' []
       = ([], Inl missingCredentials, authorized_client)"
proof -
  have l: "map_option level (getEndpoint registered_node_client ''get_profile'') = Some ''user_required''"
    by (simp add: getEndpoint_def getEndpoint_get_profile(1))
  have b: "credentials registered_node_client = Some \<lparr>api_key = ''ak_live_1'', signing_secret = ''sec_1''\<rparr>"
    "bearer_token registered_node_client = None"
    "credentials authorized_node_client = None"
    "bearer_token authorized_node_client = Some ''tok_1''"
    by (simp_all add: registered_node_client_def authorized_node_client_def example_node_client_def)
  have n: "network_requests [Hmac ''sha256'' ''1707753600.'' ''sec_1''] = []"
    by (simp add: network_requests_def)
  show ?thesis
    by (simp only: l b n node_call_registered node_call_authorized call_registered call_authorized
        simp_thms)
qed

end
